theory Spec2Isabelle
  imports Complex_Main "HOL-Library.Log_Nat"
begin

section \<open>Errors, time and the telemetry snapshot\<close>

text \<open>
  The dashboard backend (\<^verbatim>\<open>src/dev/main.py\<close>) keeps its state in module-level
  globals and mutates them in place. The model passes every global a function touches
  explicitly and returns it updated. A Python exception is a value: a function that can
  raise returns \<open>exn option\<close> next to the state it leaves behind, because the
  in-place mutations made before the \<^verbatim>\<open>raise\<close> stay visible.
\<close>

datatype exn = QueryError | OSError | ValueError | TypeError | KeyError

text \<open>
  \<^verbatim>\<open>datetime.now()\<close> is a naive local time, here a count of seconds. The only
  use the log rotator makes of it is \<^verbatim>\<open>strftime('%Y-%m-%d_%H')\<close>, which names the hour
  bucket and is one-to-one on hour buckets; the model names the bucket by its number.
\<close>

type_synonym datetime = int

definition strftime_hour :: "datetime \<Rightarrow> int" where
  "strftime_hour now = now div 3600"

definition timedelta_hours :: "int \<Rightarrow> int" where
  "timedelta_hours h = h * 3600"

text \<open>
  \<^verbatim>\<open>sensor_data\<close> is a dict from channel id to a number. A number is a Python int
  or a double, given by its exact value. The double that \<^verbatim>\<open>round(x, 1)\<close> returns, or
  that the source writes as a literal with one decimal, is the double closest to that
  decimal and is named by the decimal; such a number is only stored, compared with 100
  or 12.0, and sent.
\<close>

type_synonym sensors = "string \<rightharpoonup> rat"

section \<open>The log rotator\<close>

text \<open>
  A log file \<^verbatim>\<open>logs/sensor_data_<label>.json\<close> is identified by its hour label. The
  log directory maps the labels of the files that exist to their lines; a line is the
  pair of the entry's timestamp and the snapshot copy.
\<close>

type_synonym path = int
type_synonym log_entry = "datetime \<times> sensors"

datatype file_obj = File (f_path: path) (f_closed: bool)

datatype fs_op = Open path | Close path | Remove path | Write path

record logger =
  current_log_file :: "file_obj option"
  last_hour :: "int option"
  files :: "path \<rightharpoonup> log_entry list"
  fs_trace :: "fs_op list"

text \<open>What the operating system may refuse in one call of the logger.\<close>

record io_env =
  open_raises :: bool
  write_raises :: bool

definition get_log_filename :: "datetime \<Rightarrow> path" where
  "get_log_filename now = strftime_hour now"

text \<open>\<^verbatim>\<open>f.close()\<close>: closing a closed file does nothing.\<close>

definition close_file :: "file_obj \<Rightarrow> logger \<Rightarrow> logger" where
  "close_file f lg =
     (if f_closed f then lg
      else lg\<lparr>current_log_file := Some (File (f_path f) True),
              fs_trace := fs_trace lg @ [Close (f_path f)]\<rparr>)"

text \<open>\<^verbatim>\<open>open(p, "a")\<close>: creates the file when it is missing, keeps its lines otherwise.\<close>

definition open_append :: "path \<Rightarrow> logger \<Rightarrow> logger" where
  "open_append p lg =
     lg\<lparr>current_log_file := Some (File p False),
        files := (case files lg p of None \<Rightarrow> (files lg)(p \<mapsto> []) | Some ls \<Rightarrow> files lg),
        fs_trace := fs_trace lg @ [Open p]\<rparr>"

definition os_remove :: "path \<Rightarrow> logger \<Rightarrow> logger" where
  "os_remove p lg = lg\<lparr>files := (files lg)(p := None), fs_trace := fs_trace lg @ [Remove p]\<rparr>"

text \<open>
  \<^verbatim>\<open>rotate_logs\<close> (lines 90-108). The clock is read at line 93 (\<open>now\<close>) and once
  more inside \<^verbatim>\<open>get_log_filename\<close> (\<open>now_name\<close>, line 87).
\<close>

definition rotate_logs :: "io_env \<Rightarrow> datetime \<Rightarrow> datetime \<Rightarrow> logger \<Rightarrow> exn option \<times> logger" where
  "rotate_logs io now now_name lg =
     (let current_hour = strftime_hour now in
      if Some current_hour \<noteq> last_hour lg then
        (let lg1 = (case current_log_file lg of None \<Rightarrow> lg | Some f \<Rightarrow> close_file f lg) in
         if open_raises io then (Some OSError, lg1)
         else
           (let lg2 = open_append (get_log_filename now_name) lg1;
                lg3 = lg2\<lparr>last_hour := Some current_hour\<rparr>;
                two_hours_ago = now - timedelta_hours 2;
                old_file = strftime_hour two_hours_ago
            in if files lg3 old_file \<noteq> None then (None, os_remove old_file lg3)
               else (None, lg3)))
      else (None, lg))"

text \<open>
  \<^verbatim>\<open>log_sensor_data\<close> (lines 110-120). A file object is truthy whether open or
  closed; writing to a closed one raises \<^verbatim>\<open>ValueError\<close>. A write to a file whose
  name was removed from the directory goes to the unlinked file.
\<close>

definition write_line :: "file_obj \<Rightarrow> log_entry \<Rightarrow> logger \<Rightarrow> logger" where
  "write_line f e lg =
     lg\<lparr>files := (case files lg (f_path f) of
                     None \<Rightarrow> files lg
                   | Some ls \<Rightarrow> (files lg)(f_path f \<mapsto> ls @ [e])),
        fs_trace := fs_trace lg @ [Write (f_path f)]\<rparr>"

definition log_sensor_data ::
  "io_env \<Rightarrow> datetime \<Rightarrow> datetime \<Rightarrow> datetime \<Rightarrow> sensors \<Rightarrow> logger \<Rightarrow> exn option \<times> logger" where
  "log_sensor_data io now now_name now_entry sensor_data lg =
     (case rotate_logs io now now_name lg of
        (Some x, lg1) \<Rightarrow> (Some x, lg1)
      | (None, lg1) \<Rightarrow>
          (let log_entry = (now_entry, sensor_data) in
           case current_log_file lg1 of
             None \<Rightarrow> (None, lg1)
           | Some f \<Rightarrow>
               if f_closed f then (Some ValueError, lg1)
               else if write_raises io then (Some OSError, lg1)
               else (None, write_line f log_entry lg1)))"

text \<open>The process starts with no handle and no tracked hour (lines 83-84).\<close>

definition start_logger :: "(path \<rightharpoonup> log_entry list) \<Rightarrow> logger" where
  "start_logger dir = \<lparr>current_log_file = None, last_hour = None, files = dir, fs_trace = []\<rparr>"

definition no_io_error :: io_env where
  "no_io_error = \<lparr>open_raises = False, write_raises = False\<rparr>"

section \<open>Python numbers\<close>

text \<open>\<^verbatim>\<open>int(x)\<close> truncates towards zero.\<close>

definition py_int :: "rat \<Rightarrow> rat" where
  "py_int x = of_int (if 0 \<le> x then \<lfloor>x\<rfloor> else \<lceil>x\<rceil>)"

text \<open>
  \<^verbatim>\<open>round(x, 1)\<close>: the exact value of \<open>x\<close> to one decimal place, an exact tie going
  to the even digit.
\<close>

definition py_round1 :: "rat \<Rightarrow> rat" where
  "py_round1 x =
     (let y = x * 10; f = \<lfloor>y\<rfloor>; d = y - of_int f
      in of_int (if d < 1/2 then f else if 1/2 < d then f + 1
                 else if even f then f else f + 1) / 10)"

text \<open>
  Float arithmetic. \<^verbatim>\<open>/\<close>, \<^verbatim>\<open>-\<close>, \<^verbatim>\<open>+\<close> and \<^verbatim>\<open>*\<close> on floats, and
  \<^verbatim>\<open>/\<close> on ints, give the double closest to the exact result, a tie going to the
  even significand. \<open>binary64 x\<close> is that double: with \<open>2 ^ e \<le> |x| < 2 ^ (e + 1)\<close>
  the doubles around \<open>x\<close> are the multiples of \<open>2 ^ (e - 52)\<close>, and of \<open>2 ^ (- 1074)\<close>
  below the normal range. None of the operations of this program can overflow: they
  divide by 100 or 10, subtract from 10, or work on random numbers below 1.
\<close>

definition pow2 :: "int \<Rightarrow> rat" where
  "pow2 e = (if 0 \<le> e then 2 ^ nat e else 1 / 2 ^ nat (- e))"

definition nearest_even :: "rat \<Rightarrow> int" where
  "nearest_even y =
     (let f = \<lfloor>y\<rfloor>; d = y - of_int f
      in if d < 1/2 then f else if 1/2 < d then f + 1 else if even f then f else f + 1)"

definition binary_exponent :: "rat \<Rightarrow> int" where
  "binary_exponent x =
     (let (p, q) = quotient_of \<bar>x\<bar>; e0 = bitlen p - bitlen q
      in if pow2 e0 \<le> \<bar>x\<bar> then e0 else e0 - 1)"

definition binary64 :: "rat \<Rightarrow> rat" where
  "binary64 x =
     (if x = 0 then 0
      else (let e = max (binary_exponent x) (- 1022); q = pow2 (e - 52)
            in of_int (nearest_even (x / q)) * q))"

definition float_add :: "rat \<Rightarrow> rat \<Rightarrow> rat" where
  "float_add a b = binary64 (a + b)"

definition float_sub :: "rat \<Rightarrow> rat \<Rightarrow> rat" where
  "float_sub a b = binary64 (a - b)"

definition float_mul :: "rat \<Rightarrow> rat \<Rightarrow> rat" where
  "float_mul a b = binary64 (a * b)"

definition float_div :: "rat \<Rightarrow> rat \<Rightarrow> rat" where
  "float_div a b = binary64 (a / b)"

section \<open>The diagnostic interface\<close>

text \<open>
  The OBD library is an external collaborator. One query either returns a response,
  which is null or carries a magnitude, or raises. \<^verbatim>\<open>is_connected()\<close> and the
  answers to the queries are what the interface gives during one sampling pass.
\<close>

datatype cmd = RPM | SPEED | ENGINE_LOAD | COOLANT_TEMP | OIL_TEMP | INTAKE_PRESSURE
  | FUEL_LEVEL | CONTROL_MODULE_VOLTAGE | AIR_FUEL_RATIO

datatype 'a response = Null | Value 'a

datatype 'a outcome = Returns "'a response" | Raises exn

text \<open>
  \<open>query_dtc\<close> is the \<^verbatim>\<open>GET_DTC\<close> query; the code uses each element of its value
  only through \<^verbatim>\<open>str(dtc)\<close>, so the list holds these strings.
\<close>

record connection =
  is_connected :: bool
  query :: "cmd \<Rightarrow> rat outcome"
  query_dtc :: "string list outcome"

section \<open>Sampling\<close>

text \<open>The module-level \<^verbatim>\<open>sensor_data\<close> (lines 42-52).\<close>

definition sensor_data_init :: sensors where
  "sensor_data_init =
     [''turbo_pressure'' \<mapsto> 12 / 10, ''air_fuel_ratio'' \<mapsto> 147 / 10, ''rpm'' \<mapsto> 0,
      ''speed'' \<mapsto> 0, ''fuel_consumption'' \<mapsto> 0, ''motor_load'' \<mapsto> 0, ''motor_temp'' \<mapsto> 0,
      ''oil_temp'' \<mapsto> 0, ''battery_voltage'' \<mapsto> 0]"

definition channel_ids :: "string list" where
  "channel_ids =
     [''turbo_pressure'', ''air_fuel_ratio'', ''rpm'', ''speed'', ''fuel_consumption'',
      ''motor_load'', ''motor_temp'', ''oil_temp'', ''battery_voltage'']"

text \<open>
  \<^verbatim>\<open>simulate_obd_data\<close> (lines 262-273); \<open>rnd i\<close> is what the \<open>i\<close>-th call of
  \<^verbatim>\<open>random.random()\<close> returns, a double. The literal \<^verbatim>\<open>0.8\<close> enters the
  arithmetic as the double closest to it; the other literals are doubles exactly.
\<close>

definition simulate_obd_data :: "(nat \<Rightarrow> rat) \<Rightarrow> sensors \<Rightarrow> sensors" where
  "simulate_obd_data rnd s =
     s(''turbo_pressure'' \<mapsto>
         py_round1 (float_add (binary64 (8 / 10)) (float_mul (rnd 0) (binary64 (8 / 10)))),
       ''air_fuel_ratio'' \<mapsto> py_round1 (float_add 14 (float_mul (rnd 1) (15 / 10))),
       ''rpm'' \<mapsto> py_int (float_add 1500 (float_mul (rnd 2) 2500)),
       ''speed'' \<mapsto> py_int (float_add 60 (float_mul (rnd 3) 80)),
       ''fuel_consumption'' \<mapsto> py_round1 (float_add 6 (float_mul (rnd 4) 3)),
       ''motor_load'' \<mapsto> py_int (float_add 40 (float_mul (rnd 5) 40)),
       ''motor_temp'' \<mapsto> py_int (float_add 85 (float_mul (rnd 6) 25)),
       ''oil_temp'' \<mapsto> py_int (float_add 80 (float_mul (rnd 7) 20)),
       ''battery_voltage'' \<mapsto>
         py_round1 (float_add 12 (float_mul (rnd 8) (binary64 (8 / 10)))))"

text \<open>
  One of the eight blocks of \<^verbatim>\<open>get_obd_data\<close> that query outside any
  \<^verbatim>\<open>try\<close> (lines 129-198): a null response stores 0, a value is converted and
  stored, and an error raised by the query leaves the function.
\<close>

definition read_channel ::
  "connection \<Rightarrow> cmd \<Rightarrow> string \<Rightarrow> (rat \<Rightarrow> rat) \<Rightarrow> sensors \<Rightarrow> exn option \<times> sensors" where
  "read_channel c command key conv s =
     (case query c command of
        Raises x \<Rightarrow> (Some x, s)
      | Returns Null \<Rightarrow> (None, s(key \<mapsto> 0))
      | Returns (Value v) \<Rightarrow> (None, s(key \<mapsto> conv v)))"

text \<open>Lines 175-176 and 185-190.\<close>

definition kpa_to_bar :: "rat \<Rightarrow> rat" where
  "kpa_to_bar v = py_round1 (float_div v 100)"

definition fuel_estimate :: "rat \<Rightarrow> rat" where
  "fuel_estimate fuel_percent =
     (if fuel_percent > 0 then py_round1 (float_sub 10 (float_div fuel_percent 10)) else 0)"

text \<open>
  The air-fuel block (lines 200-209) is the one inside \<^verbatim>\<open>try\<close>/\<^verbatim>\<open>except\<close>:
  whatever the lookup of the command or the query raises is caught.
\<close>

definition read_air_fuel :: "connection \<Rightarrow> sensors \<Rightarrow> exn option \<times> sensors" where
  "read_air_fuel c s =
     (case query c AIR_FUEL_RATIO of
        Raises x \<Rightarrow> (None, s(''air_fuel_ratio'' \<mapsto> 147 / 10))
      | Returns Null \<Rightarrow> (None, s(''air_fuel_ratio'' \<mapsto> 147 / 10))
      | Returns (Value v) \<Rightarrow> (None, s(''air_fuel_ratio'' \<mapsto> py_round1 v)))"

text \<open>Statements in sequence: the first one that raises ends the run.\<close>

fun run_steps :: "('s \<Rightarrow> exn option \<times> 's) list \<Rightarrow> 's \<Rightarrow> exn option \<times> 's" where
  "run_steps [] s = (None, s)"
| "run_steps (f # fs) s =
     (case f s of (Some x, s') \<Rightarrow> (Some x, s') | (None, s') \<Rightarrow> run_steps fs s')"

text \<open>\<^verbatim>\<open>get_obd_data\<close> (lines 122-209).\<close>

definition get_obd_data ::
  "connection option \<Rightarrow> (nat \<Rightarrow> rat) \<Rightarrow> sensors \<Rightarrow> exn option \<times> sensors" where
  "get_obd_data connection rnd s =
     (case connection of
        None \<Rightarrow> (None, simulate_obd_data rnd s)
      | Some c \<Rightarrow>
          if \<not> is_connected c then (None, simulate_obd_data rnd s)
          else run_steps
            [read_channel c RPM ''rpm'' py_int,
             read_channel c SPEED ''speed'' py_int,
             read_channel c ENGINE_LOAD ''motor_load'' py_int,
             read_channel c COOLANT_TEMP ''motor_temp'' py_int,
             read_channel c OIL_TEMP ''oil_temp'' py_int,
             read_channel c INTAKE_PRESSURE ''turbo_pressure'' kpa_to_bar,
             read_channel c FUEL_LEVEL ''fuel_consumption'' fuel_estimate,
             read_channel c CONTROL_MODULE_VOLTAGE ''battery_voltage'' py_round1,
             read_air_fuel c] s)"

section \<open>Texts\<close>

text \<open>
  The source's texts are Turkish; a string of the model is the UTF-8 encoding of the
  Python string, its non-ASCII letters written as their bytes.
\<close>

definition u_c_cedilla :: string where "u_c_cedilla = [CHR 0xC3, CHR 0xA7]"
definition u_o_diaeresis :: string where "u_o_diaeresis = [CHR 0xC3, CHR 0xB6]"
definition u_u_diaeresis :: string where "u_u_diaeresis = [CHR 0xC3, CHR 0xBC]"
definition u_g_breve :: string where "u_g_breve = [CHR 0xC4, CHR 0x9F]"
definition u_dotless_i :: string where "u_dotless_i = [CHR 0xC4, CHR 0xB1]"
definition u_s_cedilla :: string where "u_s_cedilla = [CHR 0xC5, CHR 0x9F]"
definition apostrophe :: string where "apostrophe = [CHR 0x27]"

section \<open>Fault codes\<close>

text \<open>
  An entry of \<^verbatim>\<open>error_codes\<close>. \<^verbatim>\<open>strftime("%d.%m.%Y %H:%M")\<close> names the minute
  and is one-to-one on minutes; the model names the minute by its number.
\<close>

record fault =
  dtc_code :: string
  dtc_title :: string
  dtc_description :: string
  dtc_time :: int

definition strftime_minute :: "datetime \<Rightarrow> int" where
  "strftime_minute now = now div 60"

text \<open>
  Code, title and description of the four demo entries (lines 217-222), and the lookup
  table of lines 236-246.
\<close>

definition demo_entries :: "(string \<times> string \<times> string) list" where
  "demo_entries =
     [(''P0300'',
       ''Rastgele Silindir Ate'' @ u_s_cedilla @ ''leme Hatas'' @ u_dotless_i,
       ''Motorun silindirlerinden birinde veya birka'' @ u_c_cedilla @ u_dotless_i @
       ''nda ate'' @ u_s_cedilla @ ''leme hatas'' @ u_dotless_i @ '' tespit edildi.''),
      (''P0171'',
       ''Sistem Zay'' @ u_dotless_i @ ''f (Bank 1)'',
       ''Motorun yak'' @ u_dotless_i @ ''t sistemi '' @ u_c_cedilla @ ''ok fakir bir kar'' @
       u_dotless_i @ u_s_cedilla @ u_dotless_i @ ''m sa'' @ u_g_breve @ ''l'' @ u_dotless_i @
       ''yor.''),
      (''P0420'',
       ''Katalitik Konvert'' @ u_o_diaeresis @ ''r Verimlili'' @ u_g_breve @ ''i'',
       ''Katalitik konvert'' @ u_o_diaeresis @ ''r'' @ u_u_diaeresis @ ''n verimlili'' @
       u_g_breve @ ''i e'' @ u_s_cedilla @ ''ik de'' @ u_g_breve @ ''erin alt'' @
       u_dotless_i @ ''nda.''),
      (''P0455'',
       ''Emme Kontrol Sistemi B'' @ u_u_diaeresis @ ''y'' @ u_u_diaeresis @ ''k S'' @
       u_dotless_i @ ''z'' @ u_dotless_i @ ''nt'' @ u_dotless_i,
       ''Yak'' @ u_dotless_i @ ''t buhar'' @ u_dotless_i @ '' emme kontrol sisteminde b'' @
       u_u_diaeresis @ ''y'' @ u_u_diaeresis @ ''k bir s'' @ u_dotless_i @ ''z'' @
       u_dotless_i @ ''nt'' @ u_dotless_i @ '' tespit edildi.'')]"

definition dtc_descriptions :: "(string \<times> string \<times> string) list" where
  "dtc_descriptions =
     [(''P0300'',
       ''Rastgele Silindir Ate'' @ u_s_cedilla @ ''leme Hatas'' @ u_dotless_i,
       ''Motorun silindirlerinden birinde veya birka'' @ u_c_cedilla @ u_dotless_i @
       ''nda ate'' @ u_s_cedilla @ ''leme hatas'' @ u_dotless_i @ '' tespit edildi.''),
      (''P0171'',
       ''Sistem Zay'' @ u_dotless_i @ ''f (Bank 1)'',
       ''Motorun yak'' @ u_dotless_i @ ''t sistemi '' @ u_c_cedilla @ ''ok fakir bir kar'' @
       u_dotless_i @ u_s_cedilla @ u_dotless_i @ ''m sa'' @ u_g_breve @ ''l'' @ u_dotless_i @
       ''yor.''),
      (''P0420'',
       ''Katalitik Konvert'' @ u_o_diaeresis @ ''r Verimlili'' @ u_g_breve @ ''i'',
       ''Katalitik konvert'' @ u_o_diaeresis @ ''r'' @ u_u_diaeresis @ ''n verimlili'' @
       u_g_breve @ ''i e'' @ u_s_cedilla @ ''ik de'' @ u_g_breve @ ''erin alt'' @
       u_dotless_i @ ''nda.''),
      (''P0455'',
       ''Emme Kontrol Sistemi B'' @ u_u_diaeresis @ ''y'' @ u_u_diaeresis @ ''k S'' @
       u_dotless_i @ ''z'' @ u_dotless_i @ ''nt'' @ u_dotless_i,
       ''Yak'' @ u_dotless_i @ ''t buhar'' @ u_dotless_i @ '' emme kontrol sisteminde b'' @
       u_u_diaeresis @ ''y'' @ u_u_diaeresis @ ''k bir s'' @ u_dotless_i @ ''z'' @
       u_dotless_i @ ''nt'' @ u_dotless_i @ '' tespit edildi.''),
      (''P0101'',
       ''MAF Sens'' @ u_o_diaeresis @ ''r'' @ u_u_diaeresis @ '' Devre Aral'' @ u_dotless_i @
       u_g_breve @ u_dotless_i @ ''/Performans'',
       ''K'' @ u_u_diaeresis @ ''tle hava ak'' @ u_dotless_i @ u_s_cedilla @ '' sens'' @
       u_o_diaeresis @ ''r'' @ u_u_diaeresis @ ''nde aral'' @ u_dotless_i @
       ''k veya performans sorunu.''),
      (''P0135'',
       ''O2 Sens'' @ u_o_diaeresis @ ''r'' @ u_u_diaeresis @ '' Is'' @ u_dotless_i @ ''t'' @
       u_dotless_i @ ''c'' @ u_dotless_i @ '' Devresi (Bank 1, Sens'' @ u_o_diaeresis @
       ''r 1)'',
       ''Oksijen sens'' @ u_o_diaeresis @ ''r'' @ u_u_diaeresis @ '' '' @ u_dotless_i @
       ''s'' @ u_dotless_i @ ''t'' @ u_dotless_i @ ''c'' @ u_dotless_i @ '' devresinde ar'' @
       u_dotless_i @ ''za.''),
      (''P0301'',
       ''Silindir 1 Ate'' @ u_s_cedilla @ ''leme Hatas'' @ u_dotless_i,
       ''Silindir 1'' @ apostrophe @ ''de ate'' @ u_s_cedilla @ ''leme hatas'' @
       u_dotless_i @ '' tespit edildi.''),
      (''P0442'',
       ''Emme Kontrol Sistemi K'' @ u_u_diaeresis @ u_c_cedilla @ u_u_diaeresis @ ''k S'' @
       u_dotless_i @ ''z'' @ u_dotless_i @ ''nt'' @ u_dotless_i,
       ''Yak'' @ u_dotless_i @ ''t buhar'' @ u_dotless_i @ '' emme kontrol sisteminde k'' @
       u_u_diaeresis @ u_c_cedilla @ u_u_diaeresis @ ''k bir s'' @ u_dotless_i @ ''z'' @
       u_dotless_i @ ''nt'' @ u_dotless_i @ '' tespit edildi.''),
      (''P0500'',
       ''H'' @ u_dotless_i @ ''z Sens'' @ u_o_diaeresis @ ''r'' @ u_u_diaeresis,
       ''Ara'' @ u_c_cedilla @ '' h'' @ u_dotless_i @ ''z'' @ u_dotless_i @ '' sens'' @
       u_o_diaeresis @ ''r'' @ u_u_diaeresis @ ''nde ar'' @ u_dotless_i @ ''za.'')]"

definition undefined_code_text :: string where
  "undefined_code_text =
     ''Tan'' @ u_dotless_i @ ''mlanmam'' @ u_dotless_i @ u_s_cedilla @ '' hata kodu.''"

text \<open>
  \<open>clock i\<close> is what the \<open>i\<close>-th call of \<^verbatim>\<open>datetime.now()\<close> inside one
  call of \<^verbatim>\<open>get_dtc_codes\<close> returns: every entry reads the clock for itself.
\<close>

fun demo_faults ::
  "(nat \<Rightarrow> datetime) \<Rightarrow> nat \<Rightarrow> (string \<times> string \<times> string) list \<Rightarrow> fault list" where
  "demo_faults clock i [] = []"
| "demo_faults clock i ((c, t, d) # rest) =
     \<lparr>dtc_code = c, dtc_title = t, dtc_description = d,
      dtc_time = strftime_minute (clock i)\<rparr> # demo_faults clock (Suc i) rest"

text \<open>
  The \<^verbatim>\<open>for dtc in dtc_list\<close> loop (lines 248-260); \<open>code_entry\<close> is the dict one
  iteration appends.
\<close>

definition code_entry :: "(nat \<Rightarrow> datetime) \<Rightarrow> nat \<Rightarrow> string \<Rightarrow> fault" where
  "code_entry clock i code =
     (let description =
            (case map_of dtc_descriptions code of
               Some (t, d) \<Rightarrow> (t, d)
             | None \<Rightarrow> (''Hata Kodu '' @ code, undefined_code_text))
      in \<lparr>dtc_code = code, dtc_title = fst description,
          dtc_description = snd description,
          dtc_time = strftime_minute (clock i)\<rparr>)"

fun append_codes ::
  "(nat \<Rightarrow> datetime) \<Rightarrow> nat \<Rightarrow> string list \<Rightarrow> fault list \<Rightarrow> fault list" where
  "append_codes clock i [] error_codes = error_codes"
| "append_codes clock i (dtc # rest) error_codes =
     append_codes clock (Suc i) rest (error_codes @ [code_entry clock i dtc])"

text \<open>\<^verbatim>\<open>get_dtc_codes\<close> (lines 211-260).\<close>

definition get_dtc_codes ::
  "connection option \<Rightarrow> (nat \<Rightarrow> datetime) \<Rightarrow> fault list \<Rightarrow> exn option \<times> fault list" where
  "get_dtc_codes connection clock error_codes =
     (case connection of
        None \<Rightarrow> (None, demo_faults clock 0 demo_entries)
      | Some c \<Rightarrow>
          if \<not> is_connected c then (None, demo_faults clock 0 demo_entries)
          else
            (case query_dtc c of
               Raises x \<Rightarrow> (Some x, error_codes)
             | Returns Null \<Rightarrow> (None, [])
             | Returns (Value dtc_list) \<Rightarrow> (None, append_codes clock 0 dtc_list [])))"

section \<open>Controls, radio and the events sent to subscribers\<close>

text \<open>A value of a JSON message, as the handlers receive and store it.\<close>

datatype json = JNull | JBool bool | JNum rat | JStr string
  | JList "json list" | JDict "(string \<times> json) list"

text \<open>
  \<^verbatim>\<open>0 <= v\<close> and \<^verbatim>\<open>v < n\<close> compare numbers, and a bool is the number 0 or 1;
  on anything else Python raises \<^verbatim>\<open>TypeError\<close>.
\<close>

fun json_num :: "json \<Rightarrow> rat option" where
  "json_num (JNum r) = Some r"
| "json_num (JBool b) = Some (if b then 1 else 0)"
| "json_num v = None"

record radio =
  stations :: "(string \<times> string) list"
  current_station :: json
  is_playing :: json
  volume :: json

datatype event =
    Sensor_update sensors
  | Error_update "fault list"
  | Control_update string json
  | Radio_update radio
  | Alert string string rat

text \<open>The globals of the process, and the events emitted so far.\<close>

record app =
  sensor_data :: sensors
  error_codes :: "fault list"
  control_states :: "string \<rightharpoonup> json"
  radio_data :: radio
  log_state :: logger
  emitted :: "event list"

definition control_states_init :: "string \<rightharpoonup> json" where
  "control_states_init =
     [''light'' \<mapsto> JBool True, ''seat_heating'' \<mapsto> JBool False,
      ''seat_cooling'' \<mapsto> JBool False, ''steering_heating'' \<mapsto> JBool False,
      ''spotlight'' \<mapsto> JBool False, ''screen_switch'' \<mapsto> JBool False]"

definition radio_data_init :: radio where
  "radio_data_init =
     \<lparr>stations =
        [(''Power FM 98.5'', ''98.5''), (''Best FM 95.7'', ''95.7''),
         (''Number 1 FM 92.0'', ''92.0''), (''Radyo D 90.8'', ''90.8''),
         (''Joy FM 94.3'', ''94.3'')],
      current_station = JNum 0, is_playing = JBool True, volume = JNum 70\<rparr>"

definition app_init :: "(path \<rightharpoonup> log_entry list) \<Rightarrow> app" where
  "app_init dir =
     \<lparr>sensor_data = sensor_data_init, error_codes = [],
      control_states = control_states_init, radio_data = radio_data_init,
      log_state = start_logger dir, emitted = []\<rparr>"

definition emit :: "event \<Rightarrow> app \<Rightarrow> app" where
  "emit e a = a\<lparr>emitted := emitted a @ [e]\<rparr>"

section \<open>The two periodic loops\<close>

definition temp_message :: string where
  "temp_message =
     ''Motor s'' @ u_dotless_i @ ''cakl'' @ u_dotless_i @ u_g_breve @ u_dotless_i @
     '' kritik seviyede!''"

definition voltage_message :: string where
  "voltage_message =
     ''Ak'' @ u_u_diaeresis @ '' voltaj'' @ u_dotless_i @ '' d'' @ u_u_diaeresis @
     u_s_cedilla @ u_u_diaeresis @ ''k!''"

text \<open>
  The threshold checks of \<^verbatim>\<open>update_sensors\<close> (lines 284-297). Reading a key the
  dict does not have raises \<^verbatim>\<open>KeyError\<close>.
\<close>

definition check_alerts :: "app \<Rightarrow> exn option \<times> app" where
  "check_alerts a =
     (case sensor_data a ''motor_temp'' of
        None \<Rightarrow> (Some KeyError, a)
      | Some t \<Rightarrow>
          (let a1 = (if t > 100 then emit (Alert ''warning'' temp_message t) a else a) in
           case sensor_data a1 ''battery_voltage'' of
             None \<Rightarrow> (Some KeyError, a1)
           | Some v \<Rightarrow>
               (None, if v < 12 then emit (Alert ''warning'' voltage_message v) a1 else a1)))"

text \<open>What the world gives to one iteration of the fast loop.\<close>

record tick_env =
  tick_conn :: "connection option"
  tick_rnd :: "nat \<Rightarrow> rat"
  tick_io :: io_env
  tick_now :: datetime
  tick_now_name :: datetime
  tick_now_entry :: datetime

text \<open>The body of the \<^verbatim>\<open>while True\<close> of \<^verbatim>\<open>update_sensors\<close> (lines 278-297).\<close>

definition sample_step :: "tick_env \<Rightarrow> app \<Rightarrow> exn option \<times> app" where
  "sample_step e a =
     (case get_obd_data (tick_conn e) (tick_rnd e) (sensor_data a) of
        (x, s) \<Rightarrow> (x, a\<lparr>sensor_data := s\<rparr>))"

definition log_step :: "tick_env \<Rightarrow> app \<Rightarrow> exn option \<times> app" where
  "log_step e a =
     (case log_sensor_data (tick_io e) (tick_now e) (tick_now_name e) (tick_now_entry e)
             (sensor_data a) (log_state a) of
        (x, lg) \<Rightarrow> (x, a\<lparr>log_state := lg\<rparr>))"

definition update_sensors_body :: "tick_env \<Rightarrow> app \<Rightarrow> exn option \<times> app" where
  "update_sensors_body e =
     run_steps
       [sample_step e,
        log_step e,
        (\<lambda>a. (None, emit (Sensor_update (sensor_data a)) a)),
        check_alerts]"

text \<open>
  The loop has no exit and no handler: it runs until an iteration raises; the pause
  between iterations is not modelled. The list holds
  what the world gives to the iterations scheduled so far; the result \<open>None\<close> says that
  the loop is still running after them, \<open>Some x\<close> that \<open>x\<close> left the loop.
\<close>

fun update_sensors :: "tick_env list \<Rightarrow> app \<Rightarrow> exn option \<times> app" where
  "update_sensors [] a = (None, a)"
| "update_sensors (e # es) a =
     (case update_sensors_body e a of
        (Some x, a') \<Rightarrow> (Some x, a')
      | (None, a') \<Rightarrow> update_sensors es a')"

record dtc_env =
  dtc_conn :: "connection option"
  dtc_clock :: "nat \<Rightarrow> datetime"

text \<open>The body of \<^verbatim>\<open>update_errors\<close> (lines 304-305) and its loop.\<close>

definition update_errors_body :: "dtc_env \<Rightarrow> app \<Rightarrow> exn option \<times> app" where
  "update_errors_body e a =
     (case get_dtc_codes (dtc_conn e) (dtc_clock e) (error_codes a) of
        (Some x, fs) \<Rightarrow> (Some x, a\<lparr>error_codes := fs\<rparr>)
      | (None, fs) \<Rightarrow> (None, emit (Error_update fs) (a\<lparr>error_codes := fs\<rparr>)))"

fun update_errors :: "dtc_env list \<Rightarrow> app \<Rightarrow> exn option \<times> app" where
  "update_errors [] a = (None, a)"
| "update_errors (e # es) a =
     (case update_errors_body e a of
        (Some x, a') \<Rightarrow> (Some x, a')
      | (None, a') \<Rightarrow> update_errors es a')"

text \<open>How many iterations of the fast loop got as far as publishing the snapshot.\<close>

definition sensor_updates :: "app \<Rightarrow> nat" where
  "sensor_updates a =
     length (filter (\<lambda>ev. case ev of Sensor_update s \<Rightarrow> True | _ \<Rightarrow> False) (emitted a))"

definition error_updates :: "app \<Rightarrow> nat" where
  "error_updates a =
     length (filter (\<lambda>ev. case ev of Error_update fs \<Rightarrow> True | _ \<Rightarrow> False) (emitted a))"

section \<open>Request handlers\<close>

text \<open>
  A POST handler gets the parsed JSON object of the request and answers with a status and
  a JSON body; an exception it lets escape is \<open>Inl\<close>.
\<close>

datatype reply = Reply nat "(string \<times> json) list"

definition failure :: "string \<Rightarrow> reply" where
  "failure msg = Reply 400 [(''success'', JBool False), (''error'', JStr msg)]"

definition success :: reply where
  "success = Reply 200 [(''success'', JBool True)]"

text \<open>\<^verbatim>\<open>set_control\<close> (lines 325-337).\<close>

definition set_control ::
  "string \<Rightarrow> (string \<rightharpoonup> json) \<Rightarrow> app \<Rightarrow> (exn + reply) \<times> app" where
  "set_control control_name data a =
     (if control_states a control_name \<noteq> None then
        (case data ''state'' of
           Some v \<Rightarrow>
             (Inr (Reply 200 [(''success'', JBool True), (''control'', JStr control_name),
                              (''state'', v)]),
              emit (Control_update control_name v)
                (a\<lparr>control_states := (control_states a)(control_name \<mapsto> v)\<rparr>))
         | None \<Rightarrow> (Inr (failure ''Invalid control''), a))
      else (Inr (failure ''Invalid control''), a))"

text \<open>\<^verbatim>\<open>set_radio_station\<close> (lines 343-351).\<close>

definition set_radio_station :: "(string \<rightharpoonup> json) \<Rightarrow> app \<Rightarrow> (exn + reply) \<times> app" where
  "set_radio_station data a =
     (case data ''station'' of
        None \<Rightarrow> (Inr (failure ''Invalid station''), a)
      | Some v \<Rightarrow>
          (case json_num v of
             None \<Rightarrow> (Inl TypeError, a)
           | Some r \<Rightarrow>
               if 0 \<le> r \<and> r < of_nat (length (stations (radio_data a))) then
                 (let rd = (radio_data a)\<lparr>current_station := v\<rparr>
                  in (Inr success, emit (Radio_update rd) (a\<lparr>radio_data := rd\<rparr>)))
               else (Inr (failure ''Invalid station''), a)))"

text \<open>\<^verbatim>\<open>set_radio_play\<close> (lines 353-361).\<close>

definition set_radio_play :: "(string \<rightharpoonup> json) \<Rightarrow> app \<Rightarrow> (exn + reply) \<times> app" where
  "set_radio_play data a =
     (case data ''playing'' of
        None \<Rightarrow> (Inr (failure ''Missing parameter''), a)
      | Some v \<Rightarrow>
          (let rd = (radio_data a)\<lparr>is_playing := v\<rparr>
           in (Inr success, emit (Radio_update rd) (a\<lparr>radio_data := rd\<rparr>))))"

text \<open>\<^verbatim>\<open>set_radio_volume\<close> (lines 363-371).\<close>

definition set_radio_volume :: "(string \<rightharpoonup> json) \<Rightarrow> app \<Rightarrow> (exn + reply) \<times> app" where
  "set_radio_volume data a =
     (case data ''volume'' of
        None \<Rightarrow> (Inr (failure ''Invalid volume''), a)
      | Some v \<Rightarrow>
          (case json_num v of
             None \<Rightarrow> (Inl TypeError, a)
           | Some r \<Rightarrow>
               if 0 \<le> r \<and> r \<le> 100 then
                 (let rd = (radio_data a)\<lparr>volume := v\<rparr>
                  in (Inr success, emit (Radio_update rd) (a\<lparr>radio_data := rd\<rparr>)))
               else (Inr (failure ''Invalid volume''), a)))"

section \<open>Subscriber message handlers\<close>

text \<open>\<^verbatim>\<open>data.get(k)\<close>: the value, or \<^verbatim>\<open>None\<close> when the key is missing.\<close>

definition dict_get :: "(string \<rightharpoonup> json) \<Rightarrow> string \<Rightarrow> json" where
  "dict_get data k = (case data k of None \<Rightarrow> JNull | Some v \<Rightarrow> v)"

text \<open>
  \<^verbatim>\<open>handle_control_change\<close> (lines 401-412). The keys of \<^verbatim>\<open>control_states\<close> are
  strings, so only a string can be \<^verbatim>\<open>in\<close> it; a list or a dict is unhashable and
  the test raises \<^verbatim>\<open>TypeError\<close>.
\<close>

definition handle_control_change :: "(string \<rightharpoonup> json) \<Rightarrow> app \<Rightarrow> exn option \<times> app" where
  "handle_control_change data a =
     (let control_name = dict_get data ''control'';
          state = dict_get data ''state''
      in case control_name of
           JStr n \<Rightarrow>
             if control_states a n \<noteq> None then
               (None, emit (Control_update n state)
                        (a\<lparr>control_states := (control_states a)(n \<mapsto> state)\<rparr>))
             else (None, a)
         | JList xs \<Rightarrow> (Some TypeError, a)
         | JDict kvs \<Rightarrow> (Some TypeError, a)
         | _ \<Rightarrow> (None, a))"

text \<open>\<^verbatim>\<open>handle_radio_change\<close> (lines 414-429): three \<^verbatim>\<open>if\<close> statements in a row.\<close>

definition radio_change_station :: "(string \<rightharpoonup> json) \<Rightarrow> app \<Rightarrow> exn option \<times> app" where
  "radio_change_station data a =
     (case data ''station'' of
        None \<Rightarrow> (None, a)
      | Some v \<Rightarrow>
          (case json_num v of
             None \<Rightarrow> (Some TypeError, a)
           | Some r \<Rightarrow>
               if 0 \<le> r \<and> r < of_nat (length (stations (radio_data a))) then
                 (let rd = (radio_data a)\<lparr>current_station := v\<rparr>
                  in (None, emit (Radio_update rd) (a\<lparr>radio_data := rd\<rparr>)))
               else (None, a)))"

definition radio_change_playing :: "(string \<rightharpoonup> json) \<Rightarrow> app \<Rightarrow> exn option \<times> app" where
  "radio_change_playing data a =
     (case data ''playing'' of
        None \<Rightarrow> (None, a)
      | Some v \<Rightarrow>
          (let rd = (radio_data a)\<lparr>is_playing := v\<rparr>
           in (None, emit (Radio_update rd) (a\<lparr>radio_data := rd\<rparr>))))"

definition radio_change_volume :: "(string \<rightharpoonup> json) \<Rightarrow> app \<Rightarrow> exn option \<times> app" where
  "radio_change_volume data a =
     (case data ''volume'' of
        None \<Rightarrow> (None, a)
      | Some v \<Rightarrow>
          (case json_num v of
             None \<Rightarrow> (Some TypeError, a)
           | Some r \<Rightarrow>
               if 0 \<le> r \<and> r \<le> 100 then
                 (let rd = (radio_data a)\<lparr>volume := v\<rparr>
                  in (None, emit (Radio_update rd) (a\<lparr>radio_data := rd\<rparr>)))
               else (None, a)))"

definition handle_radio_change :: "(string \<rightharpoonup> json) \<Rightarrow> app \<Rightarrow> exn option \<times> app" where
  "handle_radio_change data =
     run_steps [radio_change_station data, radio_change_playing data, radio_change_volume data]"

section \<open>Predicates and example inputs used in the statements\<close>

text \<open>Calling \<^verbatim>\<open>rotate_logs\<close> at each of the given times, nothing failing.\<close>

fun rotate_hours :: "datetime list \<Rightarrow> logger \<Rightarrow> logger" where
  "rotate_hours [] lg = lg"
| "rotate_hours (now # rest) lg = rotate_hours rest (snd (rotate_logs no_io_error now now lg))"

text \<open>A log directory holding the files of hours 9, 8 and 7.\<close>

definition three_old_files :: "path \<rightharpoonup> log_entry list" where
  "three_old_files = [9 \<mapsto> [], 8 \<mapsto> [], 7 \<mapsto> []]"

text \<open>The eight commands queried outside \<^verbatim>\<open>try\<close>.\<close>

definition plain_commands :: "cmd list" where
  "plain_commands =
     [RPM, SPEED, ENGINE_LOAD, COOLANT_TEMP, OIL_TEMP, INTAKE_PRESSURE, FUEL_LEVEL,
      CONTROL_MODULE_VOLTAGE]"

definition returns :: "'a outcome \<Rightarrow> bool" where
  "returns out = (case out of Returns r \<Rightarrow> True | Raises x \<Rightarrow> False)"

definition no_raise :: "connection \<Rightarrow> bool" where
  "no_raise c = list_all (\<lambda>k. returns (query c k)) plain_commands"

text \<open>What a block of \<^verbatim>\<open>get_obd_data\<close> stores for the response it got.\<close>

definition reading :: "(rat \<Rightarrow> rat) \<Rightarrow> rat outcome \<Rightarrow> rat" where
  "reading conv out = (case out of Returns (Value v) \<Rightarrow> conv v | _ \<Rightarrow> 0)"

definition air_fuel_reading :: "rat outcome \<Rightarrow> rat" where
  "air_fuel_reading out = (case out of Returns (Value v) \<Rightarrow> py_round1 v | _ \<Rightarrow> 147 / 10)"

definition has_all_channels :: "sensors \<Rightarrow> bool" where
  "has_all_channels s = list_all (\<lambda>k. s k \<noteq> None) channel_ids"

text \<open>Interfaces for the examples: every query null; the first query raising.\<close>

definition all_null :: "cmd \<Rightarrow> rat outcome" where
  "all_null k = Returns Null"

definition null_connection :: connection where
  "null_connection = \<lparr>is_connected = True, query = all_null, query_dtc = Returns Null\<rparr>"

definition rpm_raises :: "cmd \<Rightarrow> rat outcome" where
  "rpm_raises k = (if k = RPM then Raises QueryError else Returns Null)"

definition rpm_raises_connection :: connection where
  "rpm_raises_connection =
     \<lparr>is_connected = True, query = rpm_raises, query_dtc = Returns Null\<rparr>"

definition bench_values :: "cmd \<Rightarrow> rat outcome" where
  "bench_values k =
     (if k = INTAKE_PRESSURE then Returns (Value 202)
      else if k = FUEL_LEVEL then Returns (Value 55)
      else if k = COOLANT_TEMP then Returns (Value 101)
      else if k = CONTROL_MODULE_VOLTAGE then Returns (Value (118 / 10))
      else Returns Null)"

definition bench_connection :: connection where
  "bench_connection = \<lparr>is_connected = True, query = bench_values, query_dtc = Returns Null\<rparr>"

definition no_random :: "nat \<Rightarrow> rat" where
  "no_random i = 0"

definition sixteenth :: "nat \<Rightarrow> rat" where
  "sixteenth i = 1 / 16"

definition empty_tank_values :: "cmd \<Rightarrow> rat outcome" where
  "empty_tank_values k =
     (if k = INTAKE_PRESSURE then Returns (Value 202)
      else if k = FUEL_LEVEL then Returns (Value 0)
      else Returns Null)"

definition empty_tank_connection :: connection where
  "empty_tank_connection =
     \<lparr>is_connected = True, query = empty_tank_values, query_dtc = Returns Null\<rparr>"

definition rpm_raises_speed_88 :: "cmd \<Rightarrow> rat outcome" where
  "rpm_raises_speed_88 k =
     (if k = RPM then Raises QueryError
      else if k = SPEED then Returns (Value 88)
      else Returns Null)"

definition rpm_raises_speed_88_connection :: connection where
  "rpm_raises_speed_88_connection =
     \<lparr>is_connected = True, query = rpm_raises_speed_88, query_dtc = Returns Null\<rparr>"

definition pressure_only_values :: "cmd \<Rightarrow> rat outcome" where
  "pressure_only_values k =
     (if k = INTAKE_PRESSURE then Returns (Value 202) else Returns Null)"

definition pressure_only_connection :: connection where
  "pressure_only_connection =
     \<lparr>is_connected = True, query = pressure_only_values, query_dtc = Returns Null\<rparr>"

text \<open>
  A magnitude the interface can deliver: a finite double, or a Python int that a double
  holds exactly.
\<close>

definition machine_number :: "rat \<Rightarrow> bool" where
  "machine_number v = (binary64 v = v \<and> \<bar>v\<bar> < 2 ^ 1024)"

text \<open>The alert events of a list that carry a given message.\<close>

definition alerts_with :: "string \<Rightarrow> event list \<Rightarrow> event list" where
  "alerts_with msg evs =
     filter (\<lambda>ev. case ev of Alert ty m x \<Rightarrow> m = msg | _ \<Rightarrow> False) evs"

text \<open>The events an iteration added to those emitted before it.\<close>

definition new_events :: "app \<Rightarrow> app \<Rightarrow> event list" where
  "new_events a a' = drop (length (emitted a)) (emitted a')"

text \<open>
  An iteration of the fast loop in which nothing fails: no query of the eight plain
  commands raises, the log file opens and the entry is written. The handle the logger
  holds is usable when it is not a closed file object.
\<close>

definition quiet_tick :: "tick_env \<Rightarrow> bool" where
  "quiet_tick e =
     ((case tick_conn e of None \<Rightarrow> True | Some c \<Rightarrow> \<not> is_connected c \<or> no_raise c) \<and>
      \<not> open_raises (tick_io e) \<and> \<not> write_raises (tick_io e))"

definition handle_usable :: "logger \<Rightarrow> bool" where
  "handle_usable lg = (case current_log_file lg of None \<Rightarrow> True | Some f \<Rightarrow> \<not> f_closed f)"

definition quiet_dtc :: "dtc_env \<Rightarrow> bool" where
  "quiet_dtc e =
     (case dtc_conn e of None \<Rightarrow> True | Some c \<Rightarrow> \<not> is_connected c \<or> returns (query_dtc c))"

text \<open>Iterations for the examples.\<close>

definition bench_tick :: tick_env where
  "bench_tick =
     \<lparr>tick_conn = Some bench_connection, tick_rnd = no_random, tick_io = no_io_error,
      tick_now = 36000, tick_now_name = 36000, tick_now_entry = 36000\<rparr>"

definition cool_values :: "cmd \<Rightarrow> rat outcome" where
  "cool_values k =
     (if k = COOLANT_TEMP then Returns (Value 99)
      else if k = CONTROL_MODULE_VOLTAGE then Returns (Value (126 / 10))
      else Returns Null)"

definition cool_connection :: connection where
  "cool_connection = \<lparr>is_connected = True, query = cool_values, query_dtc = Returns Null\<rparr>"

definition cool_tick :: tick_env where
  "cool_tick =
     \<lparr>tick_conn = Some cool_connection, tick_rnd = no_random, tick_io = no_io_error,
      tick_now = 36000, tick_now_name = 36000, tick_now_entry = 36000\<rparr>"

definition calm_tick :: tick_env where
  "calm_tick =
     \<lparr>tick_conn = None, tick_rnd = no_random, tick_io = no_io_error,
      tick_now = 36001, tick_now_name = 36001, tick_now_entry = 36001\<rparr>"

definition write_fails_tick :: tick_env where
  "write_fails_tick =
     \<lparr>tick_conn = None, tick_rnd = no_random,
      tick_io = \<lparr>open_raises = False, write_raises = True\<rparr>,
      tick_now = 36000, tick_now_name = 36000, tick_now_entry = 36000\<rparr>"

definition hot_write_fails_tick :: tick_env where
  "hot_write_fails_tick =
     \<lparr>tick_conn = Some bench_connection, tick_rnd = no_random,
      tick_io = \<lparr>open_raises = False, write_raises = True\<rparr>,
      tick_now = 36000, tick_now_name = 36000, tick_now_entry = 36000\<rparr>"

definition epoch_clock :: "nat \<Rightarrow> datetime" where
  "epoch_clock i = 36000"

definition dtc_raises_connection :: connection where
  "dtc_raises_connection =
     \<lparr>is_connected = True, query = all_null, query_dtc = Raises QueryError\<rparr>"

definition dtc_raises_env :: dtc_env where
  "dtc_raises_env = \<lparr>dtc_conn = Some dtc_raises_connection, dtc_clock = epoch_clock\<rparr>"

definition demo_env :: dtc_env where
  "demo_env = \<lparr>dtc_conn = None, dtc_clock = epoch_clock\<rparr>"

text \<open>The interface is unavailable: there is no connection, or it is not connected.\<close>

definition unavailable :: "connection option \<Rightarrow> bool" where
  "unavailable connection = (case connection of None \<Rightarrow> True | Some c \<Rightarrow> \<not> is_connected c)"

text \<open>A handler accepted the request: it answered with status 200.\<close>

definition accepted :: "exn + reply \<Rightarrow> bool" where
  "accepted r = (case r of Inr (Reply st body) \<Rightarrow> st = 200 | Inl x \<Rightarrow> False)"

text \<open>Messages and interfaces for the examples.\<close>

definition two_codes_connection :: connection where
  "two_codes_connection =
     \<lparr>is_connected = True, query = all_null,
      query_dtc = Returns (Value [''P0300'', ''P9999''])\<rparr>"

definition minute_clock :: "nat \<Rightarrow> datetime" where
  "minute_clock i = 36000 + 60 * int i"

definition light_without_state :: "string \<rightharpoonup> json" where
  "light_without_state = [''control'' \<mapsto> JStr ''light'']"

definition volume_150 :: "string \<rightharpoonup> json" where
  "volume_150 = [''volume'' \<mapsto> JNum 150]"

definition station_5 :: "string \<rightharpoonup> json" where
  "station_5 = [''station'' \<mapsto> JNum 5]"

section \<open>Log rotation\<close>

lemma rotate_logs_tracks:
  "rotate_logs os now n1 lg = (None, lg') \<Longrightarrow> last_hour lg' = Some (strftime_hour now)"
  by (auto simp: rotate_logs_def Let_def os_remove_def open_append_def split: if_splits)

text \<open>
  C10. A call of \<^verbatim>\<open>rotate_logs\<close> that follows a completed call, at a time in the
  same hour bucket, returns the state it was given: the handle, the tracked hour, the
  directory and the trace of file operations are the same, so nothing was opened, closed
  or deleted. This holds for every state the first call started from, whatever the
  operating system would have answered to the second.
\<close>

theorem rotate_idempotent:
  assumes "rotate_logs os now n1 lg = (None, lg')"
    and "strftime_hour now2 = strftime_hour now"
  shows "rotate_logs os2 now2 n2 lg' = (None, lg')"
  using rotate_logs_tracks [OF assms(1)] assms(2) by (simp add: rotate_logs_def)

theorem rotate_idempotent_witness:
  "rotate_logs no_io_error 36000 36000 (start_logger three_old_files) =
     (None, snd (rotate_logs no_io_error 36000 36000 (start_logger three_old_files))) \<and>
   strftime_hour 36500 = strftime_hour 36000 \<and>
   rotate_logs no_io_error 36500 36500
     (snd (rotate_logs no_io_error 36000 36000 (start_logger three_old_files))) =
     (None, snd (rotate_logs no_io_error 36000 36000 (start_logger three_old_files)))"
proof -
  have a: "rotate_logs no_io_error 36000 36000 (start_logger three_old_files) =
     (None, snd (rotate_logs no_io_error 36000 36000 (start_logger three_old_files)))"
    by (simp add: rotate_logs_def no_io_error_def start_logger_def Let_def)
  have b: "strftime_hour 36500 = strftime_hour 36000"
    by (simp add: strftime_hour_def)
  show ?thesis
    using a b rotate_idempotent [OF a b, of no_io_error 36500] by simp
qed

text \<open>
  What a rotation into a new hour does to the directory: the file of the new hour is
  there, the file labelled exactly two hours back is gone, and every other file stays.
\<close>

lemma hour_two_back: "strftime_hour (now - timedelta_hours 2) = strftime_hour now - 2"
  by (simp add: strftime_hour_def timedelta_hours_def)

lemma rotate_logs_files:
  assumes "last_hour lg \<noteq> Some (strftime_hour now)"
  shows "dom (files (snd (rotate_logs no_io_error now now lg))) =
         insert (strftime_hour now) (dom (files lg)) - {strftime_hour now - 2}"
  using assms
  by (auto simp: rotate_logs_def Let_def no_io_error_def open_append_def os_remove_def
      close_file_def get_log_filename_def hour_two_back split: option.splits if_splits)

text \<open>
  C1. The code at the input of the claim: the directory holds the files of the hours
  now-1, now-2 and now-3 (hours 9, 8, 7) and the process starts in hour 10. The first
  rotation opens the file of hour 10 and deletes the file of hour 8 only; the file of
  hour 7 stays, and it still stays after the rotations of hours 11, 12 and 13, next to
  the files of the current and the prior hour. The claim has only the current and the
  prior hour's file left.
\<close>

theorem old_file_survives:
  "dom (files (snd (rotate_logs no_io_error 36000 36000 (start_logger three_old_files)))) =
     {7, 9, 10} \<and>
   dom (files (rotate_hours [36000, 39600, 43200, 46800] (start_logger three_old_files))) =
     {7, 12, 13}"
  by (auto simp add: rotate_logs_def no_io_error_def start_logger_def Let_def
      three_old_files_def strftime_hour_def timedelta_hours_def get_log_filename_def
      open_append_def os_remove_def close_file_def split: if_splits)
section \<open>Float rounding\<close>

text \<open>
  \<open>binary_exponent\<close> finds the binade of its argument, and \<open>binary64\<close> moves a number
  by at most half the spacing of the doubles there. The double closest to 0.1 is the
  known one.
\<close>

lemma pow2_powi: "pow2 e = 2 powi e"
  by (simp add: pow2_def power_int_def field_simps)

lemma nat_bounds_powi:
  assumes "0 < p"
  shows "2 powi (bitlen p - 1) \<le> (of_int p :: rat) \<and> (of_int p :: rat) < 2 powi (bitlen p)"
proof -
  from bitlen_bounds [OF assms]
  have a: "2 ^ nat (bitlen p - 1) \<le> p" and b: "p < 2 ^ nat (bitlen p)" by simp_all
  have pos: "0 < bitlen p"
    using assms bitlen_eq_zero_iff [of p] bitlen_nonneg [of p] by linarith
  have "(of_int (2 ^ nat (bitlen p - 1)) :: rat) \<le> of_int p" using a by (simp only: of_int_le_iff)
  then have a': "(2 :: rat) ^ nat (bitlen p - 1) \<le> of_int p" by simp
  have "(of_int p :: rat) < of_int (2 ^ nat (bitlen p))" using b by (simp only: of_int_less_iff)
  then have b': "(of_int p :: rat) < 2 ^ nat (bitlen p)" by simp
  show ?thesis using a' b' pos by (simp add: power_int_def)
qed

lemma binary_exponent_bounds:
  assumes "x \<noteq> 0"
  shows "pow2 (binary_exponent x) \<le> \<bar>x\<bar> \<and> \<bar>x\<bar> < pow2 (binary_exponent x + 1)"
proof -
  obtain p q where pq: "quotient_of \<bar>x\<bar> = (p, q)" by (cases "quotient_of \<bar>x\<bar>")
  have q: "0 < q" using pq quotient_of_denom_pos by blast
  have xa: "\<bar>x\<bar> = of_int p / of_int q" using pq quotient_of_div by blast
  have "0 < \<bar>x\<bar>" using assms by simp
  then have p: "0 < p" using xa q by (simp add: zero_less_divide_iff)
  let ?e0 = "bitlen p - bitlen q"
  note bp = nat_bounds_powi [OF p]
  note bq = nat_bounds_powi [OF q]
  have qpos: "(0 :: rat) < of_int q" using q by simp
  have up: "\<bar>x\<bar> < 2 powi (?e0 + 1)"
  proof -
    have "of_int p / of_int q < (2 powi (bitlen p) :: rat) / of_int q"
      using bp qpos by (simp add: divide_strict_right_mono)
    also have "\<dots> \<le> 2 powi (bitlen p) / 2 powi (bitlen q - 1)"
    proof (rule divide_left_mono)
      show "(2 :: rat) powi (bitlen q - 1) \<le> of_int q" using bq by simp
      show "(0 :: rat) \<le> 2 powi bitlen p" by simp
      show "(0 :: rat) < of_int q * 2 powi (bitlen q - 1)" using qpos by simp
    qed
    also have "\<dots> = 2 powi (?e0 + 1)"
      by (simp add: power_int_diff power_int_add)
    finally show ?thesis using xa by simp
  qed
  have low: "2 powi (?e0 - 1) \<le> \<bar>x\<bar>"
  proof -
    have "(2 powi (?e0 - 1) :: rat) = 2 powi (bitlen p - 1) / 2 powi (bitlen q)"
      by (simp add: power_int_diff power_int_add)
    also have "\<dots> \<le> of_int p / 2 powi (bitlen q)"
      using bp by (simp add: divide_right_mono)
    also have "\<dots> \<le> of_int p / of_int q"
    proof (rule divide_left_mono)
      show "(of_int q :: rat) \<le> 2 powi bitlen q" using bq by simp
      show "(0 :: rat) \<le> of_int p" using p by simp
      show "(0 :: rat) < 2 powi bitlen q * of_int q" using qpos by simp
    qed
    finally show ?thesis using xa by simp
  qed
  show ?thesis
  proof (cases "pow2 ?e0 \<le> \<bar>x\<bar>")
    case True
    then show ?thesis using up by (simp add: binary_exponent_def pq pow2_powi)
  next
    case False
    then show ?thesis using low by (simp add: binary_exponent_def pq pow2_powi)
  qed
qed

lemma nearest_even_close: "\<bar>of_int (nearest_even y) - y\<bar> \<le> 1 / 2"
proof -
  have "of_int \<lfloor>y\<rfloor> \<le> y" and "y < of_int \<lfloor>y\<rfloor> + 1" by linarith+
  then show ?thesis by (auto simp: nearest_even_def Let_def)
qed

lemma binary64_close:
  assumes "x \<noteq> 0"
  shows "\<bar>binary64 x - x\<bar> \<le> pow2 (max (binary_exponent x) (- 1022) - 52) / 2"
proof -
  let ?q = "pow2 (max (binary_exponent x) (- 1022) - 52)"
  have q: "0 < ?q" by (simp add: pow2_powi)
  have "binary64 x - x = (of_int (nearest_even (x / ?q)) - x / ?q) * ?q"
    using assms q by (simp add: binary64_def Let_def field_simps)
  then have "\<bar>binary64 x - x\<bar> = \<bar>of_int (nearest_even (x / ?q)) - x / ?q\<bar> * ?q"
    using q by (simp add: abs_mult)
  also have "\<dots> \<le> (1 / 2) * ?q"
    using nearest_even_close [of "x / ?q"] q by (intro mult_right_mono) simp_all
  finally show ?thesis by simp
qed

lemma binary64_tenth: "binary64 (1 / 10) = 3602879701896397 / 36028797018963968"
  by code_simp

section \<open>Sampling, alerting and the loops\<close>

lemma read_channel_returns:
  "returns (query c k) \<Longrightarrow>
   read_channel c k key conv s = (None, s(key \<mapsto> reading conv (query c k)))"
  by (auto simp: read_channel_def reading_def returns_def split: outcome.splits response.splits)

lemma read_air_fuel_eq:
  "read_air_fuel c s = (None, s(''air_fuel_ratio'' \<mapsto> air_fuel_reading (query c AIR_FUEL_RATIO)))"
  by (auto simp: read_air_fuel_def air_fuel_reading_def split: outcome.splits response.splits)

lemma get_obd_data_connected:
  assumes "is_connected c" and "no_raise c"
  shows "get_obd_data (Some c) r s =
     (None, s(''rpm'' \<mapsto> reading py_int (query c RPM),
              ''speed'' \<mapsto> reading py_int (query c SPEED),
              ''motor_load'' \<mapsto> reading py_int (query c ENGINE_LOAD),
              ''motor_temp'' \<mapsto> reading py_int (query c COOLANT_TEMP),
              ''oil_temp'' \<mapsto> reading py_int (query c OIL_TEMP),
              ''turbo_pressure'' \<mapsto> reading kpa_to_bar (query c INTAKE_PRESSURE),
              ''fuel_consumption'' \<mapsto> reading fuel_estimate (query c FUEL_LEVEL),
              ''battery_voltage'' \<mapsto> reading py_round1 (query c CONTROL_MODULE_VOLTAGE),
              ''air_fuel_ratio'' \<mapsto> air_fuel_reading (query c AIR_FUEL_RATIO)))"
  using assms
  by (simp add: get_obd_data_def no_raise_def plain_commands_def read_channel_returns
      read_air_fuel_eq)

text \<open>
  The conversions at the readings of the claim, and at 215 kPa, where the float
  quotient lies just below 2.15 and the result is 2.1.
\<close>

lemma kpa_202: "kpa_to_bar 202 = 2"
  by code_simp

lemma kpa_215: "kpa_to_bar 215 = 21 / 10"
  by code_simp

lemma fuel_55: "fuel_estimate 55 = 45 / 10"
  by code_simp

text \<open>
  The generator with every random number 1/16: the float sums lie just above 0.85 and
  12.05, so the turbo pressure is 0.9 and the battery voltage 12.1.
\<close>

lemma simulate_at_sixteenth:
  "simulate_obd_data sixteenth Map.empty ''turbo_pressure'' = Some (9 / 10) \<and>
   simulate_obd_data sixteenth Map.empty ''battery_voltage'' = Some (121 / 10) \<and>
   simulate_obd_data sixteenth Map.empty ''rpm'' = Some 1656"
  by code_simp

text \<open>
  C7. In a pass over a connected interface in which no plain query raises, an
  intake-pressure reading of \<open>v\<close> kPa is stored as \<^verbatim>\<open>round(v / 100, 1)\<close> bar, the
  quotient being the float quotient, which gives 2.0 for 202 kPa; a fuel-level reading
  of \<open>p\<close> percent is stored as \<^verbatim>\<open>round(10 - p / 10, 1)\<close>, in float arithmetic, when
  \<open>p > 0\<close>, which gives 4.5 for 55 percent, and as 0 when \<open>p\<close> is 0 or below. Each of
  the two fields depends on the answer of its own channel only.
\<close>

theorem unit_conversion:
  assumes "is_connected c" and "no_raise c"
  shows "(query c INTAKE_PRESSURE = Returns (Value v) \<and> machine_number v \<longrightarrow>
            snd (get_obd_data (Some c) r s) ''turbo_pressure'' =
              Some (py_round1 (float_div v 100))) \<and>
         (query c INTAKE_PRESSURE = Returns (Value 202) \<longrightarrow>
            snd (get_obd_data (Some c) r s) ''turbo_pressure'' = Some 2) \<and>
         (query c FUEL_LEVEL = Returns (Value p) \<and> machine_number p \<and> p > 0 \<longrightarrow>
            snd (get_obd_data (Some c) r s) ''fuel_consumption'' =
              Some (py_round1 (float_sub 10 (float_div p 10)))) \<and>
         (query c FUEL_LEVEL = Returns (Value 55) \<longrightarrow>
            snd (get_obd_data (Some c) r s) ''fuel_consumption'' = Some (45 / 10)) \<and>
         (query c FUEL_LEVEL = Returns (Value p) \<and> p \<le> 0 \<longrightarrow>
            snd (get_obd_data (Some c) r s) ''fuel_consumption'' = Some 0) \<and>
         (query c FUEL_LEVEL = Returns (Value 0) \<longrightarrow>
            snd (get_obd_data (Some c) r s) ''fuel_consumption'' = Some 0)"
proof -
  note g = get_obd_data_connected [OF assms, of r s]
  have turbo: "snd (get_obd_data (Some c) r s) ''turbo_pressure'' =
      Some (reading kpa_to_bar (query c INTAKE_PRESSURE))"
    by (simp add: g)
  have fuel: "snd (get_obd_data (Some c) r s) ''fuel_consumption'' =
      Some (reading fuel_estimate (query c FUEL_LEVEL))"
    by (simp add: g)
  show ?thesis
    using kpa_202 fuel_55
    by (simp add: turbo fuel reading_def kpa_to_bar_def fuel_estimate_def)
qed

lemma bench_ok: "is_connected bench_connection \<and> no_raise bench_connection"
  by (simp add: bench_connection_def no_raise_def plain_commands_def bench_values_def returns_def)

lemma empty_tank_ok: "is_connected empty_tank_connection \<and> no_raise empty_tank_connection"
  by (simp add: empty_tank_connection_def no_raise_def plain_commands_def empty_tank_values_def
      returns_def)

lemma pressure_only_ok:
  "is_connected pressure_only_connection \<and> no_raise pressure_only_connection"
  by (simp add: pressure_only_connection_def no_raise_def plain_commands_def
      pressure_only_values_def returns_def)

theorem unit_conversion_witness:
  "is_connected bench_connection \<and> no_raise bench_connection \<and>
   query bench_connection INTAKE_PRESSURE = Returns (Value 202) \<and> machine_number 202 \<and>
   query bench_connection FUEL_LEVEL = Returns (Value 55) \<and> machine_number 55 \<and>
   (55 :: rat) > 0 \<and>
   py_round1 (float_div 202 100) = 2 \<and>
   py_round1 (float_sub 10 (float_div 55 10)) = 45 / 10 \<and>
   snd (get_obd_data (Some bench_connection) no_random sensor_data_init) ''turbo_pressure'' =
     Some 2 \<and>
   snd (get_obd_data (Some bench_connection) no_random sensor_data_init) ''fuel_consumption'' =
     Some (45 / 10) \<and>
   is_connected empty_tank_connection \<and> no_raise empty_tank_connection \<and>
   query empty_tank_connection FUEL_LEVEL = Returns (Value 0) \<and> (0 :: rat) \<le> 0 \<and>
   snd (get_obd_data (Some empty_tank_connection) no_random sensor_data_init)
     ''fuel_consumption'' = Some 0 \<and>
   is_connected pressure_only_connection \<and> no_raise pressure_only_connection \<and>
   query pressure_only_connection INTAKE_PRESSURE = Returns (Value 202) \<and>
   query pressure_only_connection FUEL_LEVEL = Returns Null \<and>
   snd (get_obd_data (Some pressure_only_connection) no_random sensor_data_init)
     ''turbo_pressure'' = Some 2"
proof -
  have q1: "query bench_connection INTAKE_PRESSURE = Returns (Value 202)"
    and q2: "query bench_connection FUEL_LEVEL = Returns (Value 55)"
    by (simp_all add: bench_connection_def bench_values_def)
  have q4: "query empty_tank_connection FUEL_LEVEL = Returns (Value 0)"
    by (simp add: empty_tank_connection_def empty_tank_values_def)
  have q5: "query pressure_only_connection INTAKE_PRESSURE = Returns (Value 202)"
    and q6: "query pressure_only_connection FUEL_LEVEL = Returns Null"
    by (simp_all add: pressure_only_connection_def pressure_only_values_def)
  have m: "machine_number 202" "machine_number 55"
    by code_simp+
  have n: "(55 :: rat) > 0" "(0 :: rat) \<le> 0"
    by simp_all
  have e1: "py_round1 (float_div 202 100) = 2"
    by code_simp
  have e2: "py_round1 (float_sub 10 (float_div 55 10)) = 45 / 10"
    by code_simp
  note a = unit_conversion [OF conjunct1 [OF bench_ok] conjunct2 [OF bench_ok],
      of 202 no_random sensor_data_init 55]
  note b = unit_conversion [OF conjunct1 [OF empty_tank_ok] conjunct2 [OF empty_tank_ok],
      of 202 no_random sensor_data_init 0]
  note c = unit_conversion [OF conjunct1 [OF pressure_only_ok] conjunct2 [OF pressure_only_ok],
      of 202 no_random sensor_data_init 0]
  show ?thesis
    using a b c bench_ok empty_tank_ok pressure_only_ok q1 q2 q4 q5 q6 m n e1 e2 by blast
qed

text \<open>
  C2, as amended. In a pass over a connected interface in which none of the eight plain
  queries raises, the pass returns and every field holds what its own channel answered:
  the fallback 0 for a null response, the converted value otherwise, and for the
  air-fuel ratio 14.7 when its query is null or raises. So when every plain query is
  null and the air-fuel query is null or raises, the air-fuel ratio is 14.7 and the
  other eight fields are 0, and no data on one channel does not keep another channel
  from being read.
\<close>

theorem null_fallback:
  assumes "is_connected c" and "no_raise c"
  shows "fst (get_obd_data (Some c) r s) = None \<and>
    snd (get_obd_data (Some c) r s) ''rpm'' = Some (reading py_int (query c RPM)) \<and>
    snd (get_obd_data (Some c) r s) ''speed'' = Some (reading py_int (query c SPEED)) \<and>
    snd (get_obd_data (Some c) r s) ''motor_load'' = Some (reading py_int (query c ENGINE_LOAD)) \<and>
    snd (get_obd_data (Some c) r s) ''motor_temp'' = Some (reading py_int (query c COOLANT_TEMP)) \<and>
    snd (get_obd_data (Some c) r s) ''oil_temp'' = Some (reading py_int (query c OIL_TEMP)) \<and>
    snd (get_obd_data (Some c) r s) ''turbo_pressure'' =
      Some (reading kpa_to_bar (query c INTAKE_PRESSURE)) \<and>
    snd (get_obd_data (Some c) r s) ''fuel_consumption'' =
      Some (reading fuel_estimate (query c FUEL_LEVEL)) \<and>
    snd (get_obd_data (Some c) r s) ''battery_voltage'' =
      Some (reading py_round1 (query c CONTROL_MODULE_VOLTAGE)) \<and>
    snd (get_obd_data (Some c) r s) ''air_fuel_ratio'' =
      Some (air_fuel_reading (query c AIR_FUEL_RATIO)) \<and>
    (list_all (\<lambda>k. query c k = Returns Null) plain_commands \<and>
     (case query c AIR_FUEL_RATIO of Returns resp \<Rightarrow> resp = Null | Raises x \<Rightarrow> True) \<longrightarrow>
       snd (get_obd_data (Some c) r s) ''air_fuel_ratio'' = Some (147 / 10) \<and>
       list_all (\<lambda>key. snd (get_obd_data (Some c) r s) key = Some 0)
         [''rpm'', ''speed'', ''motor_load'', ''motor_temp'', ''oil_temp'', ''turbo_pressure'',
          ''fuel_consumption'', ''battery_voltage''])"
  by (simp add: get_obd_data_connected [OF assms] plain_commands_def reading_def
      air_fuel_reading_def split: outcome.splits)

lemma null_ok: "is_connected null_connection \<and> no_raise null_connection"
  by (simp add: null_connection_def no_raise_def plain_commands_def all_null_def returns_def)

theorem null_fallback_witness:
  "is_connected null_connection \<and> no_raise null_connection \<and>
   list_all (\<lambda>k. query null_connection k = Returns Null) plain_commands \<and>
   query null_connection AIR_FUEL_RATIO = Returns Null \<and>
   fst (get_obd_data (Some null_connection) no_random sensor_data_init) = None \<and>
   snd (get_obd_data (Some null_connection) no_random sensor_data_init) ''air_fuel_ratio'' =
     Some (147 / 10) \<and>
   snd (get_obd_data (Some null_connection) no_random sensor_data_init) ''turbo_pressure'' =
     Some 0 \<and>
   snd (get_obd_data (Some null_connection) no_random sensor_data_init) ''battery_voltage'' =
     Some 0"
proof -
  have q: "list_all (\<lambda>k. query null_connection k = Returns Null) plain_commands"
    and q': "query null_connection AIR_FUEL_RATIO = Returns Null"
    by (simp_all add: null_connection_def all_null_def plain_commands_def)
  note a = null_fallback [OF conjunct1 [OF null_ok] conjunct2 [OF null_ok],
      of no_random sensor_data_init]
  show ?thesis using a null_ok q q'
    by (simp add: plain_commands_def reading_def air_fuel_reading_def)
qed

text \<open>
  C2 as stated fails where a plain query raises: the error leaves
  \<^verbatim>\<open>get_obd_data\<close> at once. With the RPM query raising and all others null, the
  turbo pressure keeps its old value 1.2 instead of 0; with the speed query answering
  88, the speed is never read and stays 0.
\<close>

theorem raising_query_counterexample:
  "fst (get_obd_data (Some rpm_raises_connection) no_random sensor_data_init) = Some QueryError \<and>
   snd (get_obd_data (Some rpm_raises_connection) no_random sensor_data_init) ''turbo_pressure''
     \<noteq> Some 0 \<and>
   query rpm_raises_speed_88_connection SPEED = Returns (Value 88) \<and>
   snd (get_obd_data (Some rpm_raises_speed_88_connection) no_random sensor_data_init) ''speed''
     = Some 0"
  by (simp add: get_obd_data_def rpm_raises_connection_def rpm_raises_def read_channel_def
      rpm_raises_speed_88_connection_def rpm_raises_speed_88_def sensor_data_init_def)

lemma run_steps_dom:
  assumes "\<And>f s. f \<in> set fs \<Longrightarrow> dom s \<subseteq> dom (snd (f s))"
  shows "dom s \<subseteq> dom (snd (run_steps fs s))"
  using assms
proof (induction fs arbitrary: s)
  case Nil
  then show ?case by simp
next
  case (Cons f fs)
  have step: "dom s \<subseteq> dom (snd (f s))" using Cons.prems by simp
  have rest: "dom (snd (f s)) \<subseteq> dom (snd (run_steps fs (snd (f s))))"
    using Cons.IH Cons.prems by simp
  show ?case
  proof (cases "f s")
    case (Pair x s1)
    then show ?thesis using step rest by (cases x) auto
  qed
qed

lemma read_channel_dom: "dom s \<subseteq> dom (snd (read_channel c k key conv s))"
  by (auto simp: read_channel_def split: outcome.splits response.splits)

lemma read_air_fuel_dom: "dom s \<subseteq> dom (snd (read_air_fuel c s))"
  by (auto simp: read_air_fuel_def split: outcome.splits response.splits)

lemma simulate_keys: "set channel_ids \<subseteq> dom (simulate_obd_data r s)"
  by (simp add: simulate_obd_data_def channel_ids_def)

lemma simulate_complete: "has_all_channels (simulate_obd_data r s)"
  using simulate_keys [of r s] by (auto simp: has_all_channels_def list_all_iff)

lemma get_obd_data_dom: "dom s \<subseteq> dom (snd (get_obd_data connection r s)) \<or>
   has_all_channels (snd (get_obd_data connection r s))"
proof (cases connection)
  case None
  then show ?thesis by (simp add: get_obd_data_def simulate_complete)
next
  case (Some c)
  show ?thesis
  proof (cases "is_connected c")
    case False
    then show ?thesis using Some by (simp add: get_obd_data_def simulate_complete)
  next
    case True
    have "dom s \<subseteq> dom (snd (run_steps
            [read_channel c RPM ''rpm'' py_int,
             read_channel c SPEED ''speed'' py_int,
             read_channel c ENGINE_LOAD ''motor_load'' py_int,
             read_channel c COOLANT_TEMP ''motor_temp'' py_int,
             read_channel c OIL_TEMP ''oil_temp'' py_int,
             read_channel c INTAKE_PRESSURE ''turbo_pressure'' kpa_to_bar,
             read_channel c FUEL_LEVEL ''fuel_consumption'' fuel_estimate,
             read_channel c CONTROL_MODULE_VOLTAGE ''battery_voltage'' py_round1,
             read_air_fuel c] s))"
      by (rule run_steps_dom) (simp, elim disjE, simp_all only: read_channel_dom read_air_fuel_dom)
    then show ?thesis using Some True by (simp add: get_obd_data_def)
  qed
qed

lemma complete_mono: "has_all_channels s \<Longrightarrow> dom s \<subseteq> dom s' \<Longrightarrow> has_all_channels s'"
  by (auto simp: has_all_channels_def list_all_iff)

lemma get_obd_data_keeps_complete:
  "has_all_channels s \<Longrightarrow> has_all_channels (snd (get_obd_data connection r s))"
  using get_obd_data_dom [of s connection r] complete_mono by blast

lemma run_steps_fst:
  "fst (run_steps (f # fs) s) = None \<longleftrightarrow>
     fst (f s) = None \<and> fst (run_steps fs (snd (f s))) = None"
  by (cases "f s") (auto split: option.splits)

lemma read_channel_fst: "fst (read_channel c k key conv s) = None \<longleftrightarrow> returns (query c k)"
  by (auto simp: read_channel_def returns_def split: outcome.splits response.splits)

lemma finished_pass_no_raise:
  assumes "fst (get_obd_data (Some c) r s) = None" and "is_connected c"
  shows "no_raise c"
  using assms
  by (simp add: get_obd_data_def run_steps_fst read_channel_fst no_raise_def plain_commands_def
      del: run_steps.simps)

lemma connected_complete:
  assumes "is_connected c" and "no_raise c"
  shows "has_all_channels (snd (get_obd_data (Some c) r s))"
  by (simp add: get_obd_data_connected [OF assms] has_all_channels_def channel_ids_def)

lemma finished_pass_complete:
  assumes "fst (get_obd_data connection r s) = None"
  shows "has_all_channels (snd (get_obd_data connection r s))"
proof (cases connection)
  case None
  then show ?thesis by (simp add: get_obd_data_def simulate_complete)
next
  case (Some c)
  show ?thesis
  proof (cases "is_connected c")
    case False
    then show ?thesis using Some by (simp add: get_obd_data_def simulate_complete)
  next
    case True
    then show ?thesis
      using Some assms finished_pass_no_raise connected_complete by blast
  qed
qed

lemma init_complete: "has_all_channels sensor_data_init"
  by (simp add: has_all_channels_def channel_ids_def sensor_data_init_def del: not_None_eq)

lemma update_sensors_body_None:
  assumes "update_sensors_body e a = (None, a')"
  shows "\<exists>s lg. get_obd_data (tick_conn e) (tick_rnd e) (sensor_data a) = (None, s) \<and>
    log_sensor_data (tick_io e) (tick_now e) (tick_now_name e) (tick_now_entry e) s
      (log_state a) = (None, lg) \<and>
    check_alerts (emit (Sensor_update s) (a\<lparr>sensor_data := s, log_state := lg\<rparr>)) = (None, a')"
  using assms
  by (auto simp: update_sensors_body_def sample_step_def log_step_def
      split: prod.splits option.splits)

lemma check_alerts_sensor_data: "sensor_data (snd (check_alerts b)) = sensor_data b"
  by (auto simp: check_alerts_def emit_def Let_def split: option.splits)

lemma check_alerts_events:
  assumes "sensor_data b ''motor_temp'' = Some t"
    and "sensor_data b ''battery_voltage'' = Some v"
  shows "check_alerts b =
    (None, b\<lparr>emitted := emitted b @
         (if 100 < t then [Alert ''warning'' temp_message t] else []) @
         (if v < 12 then [Alert ''warning'' voltage_message v] else [])\<rparr>)"
  using assms by (simp add: check_alerts_def emit_def Let_def)

lemma messages_differ: "temp_message \<noteq> voltage_message"
  by (simp add: temp_message_def voltage_message_def)

lemma tick_events:
  assumes "update_sensors_body e a = (None, a')"
    and "sensor_data a' ''motor_temp'' = Some t"
    and "sensor_data a' ''battery_voltage'' = Some v"
  shows "emitted a' = emitted a @ [Sensor_update (sensor_data a')] @
           (if 100 < t then [Alert ''warning'' temp_message t] else []) @
           (if v < 12 then [Alert ''warning'' voltage_message v] else [])"
proof -
  from update_sensors_body_None [OF assms(1)] obtain s lg where
    c: "check_alerts (emit (Sensor_update s) (a\<lparr>sensor_data := s, log_state := lg\<rparr>)) = (None, a')"
    by blast
  let ?b = "emit (Sensor_update s) (a\<lparr>sensor_data := s, log_state := lg\<rparr>)"
  have sd: "sensor_data a' = sensor_data ?b"
    using check_alerts_sensor_data [of ?b] c by simp
  have "check_alerts ?b = (None, ?b\<lparr>emitted := emitted ?b @
         (if 100 < t then [Alert ''warning'' temp_message t] else []) @
         (if v < 12 then [Alert ''warning'' voltage_message v] else [])\<rparr>)"
    using assms(2,3) sd by (intro check_alerts_events) simp_all
  with c sd show ?thesis
    by (auto simp: emit_def)
qed

text \<open>
  C6, as amended. An iteration of the fast loop that completes, its sampling pass and its
  log write raising nothing, publishes the snapshot, then one alert of type warning with
  the temperature message and the value when \<open>motor_temp > 100\<close>, then one alert of
  type warning with the voltage message and the value when \<open>battery_voltage < 12\<close>,
  and nothing else. So in such an iteration a snapshot with motor_temp 101 gives exactly
  one high-temperature alert carrying 101, one with motor_temp 99 gives none, and one
  with a battery voltage below 12 gives exactly one low-voltage alert carrying the
  value. The events depend on the snapshot of the iteration alone, so the alert is sent
  again in every completed iteration in which the condition holds.
\<close>

theorem threshold_alerting:
  assumes "update_sensors_body e a = (None, a')"
    and "sensor_data a' ''motor_temp'' = Some t"
    and "sensor_data a' ''battery_voltage'' = Some v"
  shows "new_events a a' = [Sensor_update (sensor_data a')] @
           (if 100 < t then [Alert ''warning'' temp_message t] else []) @
           (if v < 12 then [Alert ''warning'' voltage_message v] else []) \<and>
         (t = 101 \<longrightarrow> alerts_with temp_message (new_events a a') =
                      [Alert ''warning'' temp_message 101]) \<and>
         (t = 99 \<longrightarrow> alerts_with temp_message (new_events a a') = []) \<and>
         (v < 12 \<longrightarrow> alerts_with voltage_message (new_events a a') =
                      [Alert ''warning'' voltage_message v]) \<and>
         (\<not> v < 12 \<longrightarrow> alerts_with voltage_message (new_events a a') = [])"
  using messages_differ messages_differ [symmetric]
  by (simp add: tick_events [OF assms] new_events_def alerts_with_def)

lemma rotate_logs_quiet:
  assumes "\<not> open_raises os" and "handle_usable lg"
  shows "fst (rotate_logs os now n lg) = None \<and> handle_usable (snd (rotate_logs os now n lg))"
  using assms
  by (auto simp: rotate_logs_def Let_def handle_usable_def open_append_def os_remove_def
      split: option.splits)

lemma log_sensor_data_quiet:
  assumes "\<not> open_raises os" and "\<not> write_raises os" and "handle_usable lg"
  shows "fst (log_sensor_data os now n ne s lg) = None \<and>
         handle_usable (snd (log_sensor_data os now n ne s lg))"
proof -
  obtain lg1 where r: "rotate_logs os now n lg = (None, lg1)" and h: "handle_usable lg1"
    using rotate_logs_quiet [OF assms(1,3), of now n] by (cases "rotate_logs os now n lg") auto
  show ?thesis
    using h assms(2)
    by (auto simp: log_sensor_data_def r Let_def handle_usable_def write_line_def
        split: option.splits)
qed

lemma get_obd_data_quiet:
  assumes "case connection of None \<Rightarrow> True | Some c \<Rightarrow> \<not> is_connected c \<or> no_raise c"
  shows "fst (get_obd_data connection r s) = None"
proof (cases connection)
  case None
  then show ?thesis by (simp add: get_obd_data_def)
next
  case (Some c)
  show ?thesis
  proof (cases "is_connected c")
    case False
    then show ?thesis using Some by (simp add: get_obd_data_def)
  next
    case True
    then have "no_raise c" using assms Some by simp
    then show ?thesis using Some True by (simp add: get_obd_data_connected)
  qed
qed

lemma complete_keys:
  "has_all_channels s \<Longrightarrow> s ''motor_temp'' \<noteq> None \<and> s ''battery_voltage'' \<noteq> None"
  by (simp add: has_all_channels_def channel_ids_def)

lemma count_sensor_updates:
  "length (filter (\<lambda>ev. case ev of Sensor_update s \<Rightarrow> True | _ \<Rightarrow> False)
     (xs @ [Sensor_update s] @
       (if c1 then [Alert ''warning'' m1 t] else []) @ (if c2 then [Alert ''warning'' m2 v] else [])))
   = length (filter (\<lambda>ev. case ev of Sensor_update s \<Rightarrow> True | _ \<Rightarrow> False) xs) + 1"
  by simp

lemma body_quiet:
  assumes "quiet_tick e" and "handle_usable (log_state a)"
  shows "fst (update_sensors_body e a) = None \<and>
         handle_usable (log_state (snd (update_sensors_body e a))) \<and>
         sensor_updates (snd (update_sensors_body e a)) = sensor_updates a + 1"
proof -
  let ?g = "get_obd_data (tick_conn e) (tick_rnd e) (sensor_data a)"
  have g: "fst ?g = None"
    using assms(1) by (intro get_obd_data_quiet) (simp add: quiet_tick_def)
  then obtain s where gs: "?g = (None, s)" by (cases ?g) auto
  have cs: "has_all_channels s" using finished_pass_complete [OF g] gs by simp
  let ?l = "log_sensor_data (tick_io e) (tick_now e) (tick_now_name e) (tick_now_entry e) s
      (log_state a)"
  have l: "fst ?l = None \<and> handle_usable (snd ?l)"
    using assms by (intro log_sensor_data_quiet) (simp_all add: quiet_tick_def)
  then obtain lg where ls: "?l = (None, lg)" and hl: "handle_usable lg" by (cases ?l) auto
  let ?b = "emit (Sensor_update s) (a\<lparr>sensor_data := s, log_state := lg\<rparr>)"
  obtain t v where tv: "s ''motor_temp'' = Some t" "s ''battery_voltage'' = Some v"
    using complete_keys [OF cs] by auto
  have c: "check_alerts ?b =
    (None, ?b\<lparr>emitted := emitted ?b @
         (if 100 < t then [Alert ''warning'' temp_message t] else []) @
         (if v < 12 then [Alert ''warning'' voltage_message v] else [])\<rparr>)"
    using tv by (intro check_alerts_events) (simp_all add: emit_def)
  have body: "update_sensors_body e a =
    (None, ?b\<lparr>emitted := emitted ?b @
         (if 100 < t then [Alert ''warning'' temp_message t] else []) @
         (if v < 12 then [Alert ''warning'' voltage_message v] else [])\<rparr>)"
    using gs ls c by (simp add: update_sensors_body_def sample_step_def log_step_def)
  show ?thesis
    using hl by (simp add: body sensor_updates_def emit_def)
qed

lemma update_sensors_quiet:
  assumes "list_all quiet_tick es" and "handle_usable (log_state a)"
  shows "fst (update_sensors es a) = None \<and>
         sensor_updates (snd (update_sensors es a)) = sensor_updates a + length es"
  using assms
proof (induction es arbitrary: a)
  case Nil
  then show ?case by simp
next
  case (Cons e es)
  have q: "quiet_tick e" and qs: "list_all quiet_tick es" using Cons.prems(1) by simp_all
  note b = body_quiet [OF q Cons.prems(2)]
  obtain a1 where a1: "update_sensors_body e a = (None, a1)"
    using b by (cases "update_sensors_body e a") auto
  have "handle_usable (log_state a1)" and "sensor_updates a1 = sensor_updates a + 1"
    using b a1 by simp_all
  then show ?case using Cons.IH [OF qs, of a1] a1 by simp
qed

lemma get_dtc_codes_quiet:
  assumes "case connection of None \<Rightarrow> True | Some c \<Rightarrow> \<not> is_connected c \<or> returns (query_dtc c)"
  shows "fst (get_dtc_codes connection clock fs) = None"
  using assms
  by (auto simp: get_dtc_codes_def returns_def split: option.splits outcome.splits response.splits)

lemma errors_body_quiet:
  assumes "quiet_dtc d"
  shows "fst (update_errors_body d a) = None \<and>
         error_updates (snd (update_errors_body d a)) = error_updates a + 1"
proof -
  let ?g = "get_dtc_codes (dtc_conn d) (dtc_clock d) (error_codes a)"
  have "fst ?g = None" using assms by (intro get_dtc_codes_quiet) (simp add: quiet_dtc_def)
  then obtain fs where "?g = (None, fs)" by (cases ?g) auto
  then show ?thesis by (simp add: update_errors_body_def error_updates_def emit_def)
qed

lemma update_errors_quiet:
  assumes "list_all quiet_dtc ds"
  shows "fst (update_errors ds a) = None \<and>
         error_updates (snd (update_errors ds a)) = error_updates a + length ds"
  using assms
proof (induction ds arbitrary: a)
  case Nil
  then show ?case by simp
next
  case (Cons d ds)
  have q: "quiet_dtc d" and qs: "list_all quiet_dtc ds" using Cons.prems by simp_all
  note b = errors_body_quiet [OF q, of a]
  obtain a1 where a1: "update_errors_body d a = (None, a1)"
    using b by (cases "update_errors_body d a") auto
  have "error_updates a1 = error_updates a + 1" using b a1 by simp
  then show ?case using Cons.IH [OF qs, of a1] a1 by simp
qed

text \<open>
  C8, as amended. Neither loop has a handler. Iterations of the telemetry loop in which
  no plain query raises and the log file opens and is written all run, one snapshot
  published by each; iterations of the fault-code loop in which the trouble-code query
  does not raise all run as well. An iteration that raises ends its loop: the
  iterations scheduled after it do not run.
\<close>

theorem loops_run_until_raise:
  "(list_all quiet_tick es \<and> handle_usable (log_state a) \<longrightarrow>
      fst (update_sensors es a) = None \<and>
      sensor_updates (snd (update_sensors es a)) = sensor_updates a + length es) \<and>
   (list_all quiet_dtc ds \<longrightarrow>
      fst (update_errors ds a) = None \<and>
      error_updates (snd (update_errors ds a)) = error_updates a + length ds) \<and>
   (fst (update_sensors_body e a) \<noteq> None \<longrightarrow>
      update_sensors (e # es) a = update_sensors_body e a) \<and>
   (fst (update_errors_body d a) \<noteq> None \<longrightarrow>
      update_errors (d # ds) a = update_errors_body d a)"
proof (intro conjI impI)
  assume "list_all quiet_tick es \<and> handle_usable (log_state a)"
  then show "fst (update_sensors es a) = None"
    and "sensor_updates (snd (update_sensors es a)) = sensor_updates a + length es"
    using update_sensors_quiet by blast+
next
  assume "list_all quiet_dtc ds"
  then show "fst (update_errors ds a) = None"
    and "error_updates (snd (update_errors ds a)) = error_updates a + length ds"
    using update_errors_quiet by blast+
next
  assume "fst (update_sensors_body e a) \<noteq> None"
  then show "update_sensors (e # es) a = update_sensors_body e a"
    by (cases "update_sensors_body e a") auto
next
  assume "fst (update_errors_body d a) \<noteq> None"
  then show "update_errors (d # ds) a = update_errors_body d a"
    by (cases "update_errors_body d a") auto
qed

lemma run_steps_invariant:
  assumes "\<And>f s. f \<in> set fs \<Longrightarrow> P s \<Longrightarrow> P (snd (f s))" and "P s"
  shows "P (snd (run_steps fs s))"
  using assms
proof (induction fs arbitrary: s)
  case Nil
  then show ?case by simp
next
  case (Cons f fs)
  have step: "P (snd (f s))" using Cons.prems by simp
  have rest: "P (snd (run_steps fs (snd (f s))))"
    using Cons.IH [of "snd (f s)"] Cons.prems(1) step by simp
  show ?case
  proof (cases "f s")
    case (Pair x s1)
    then show ?thesis using step rest by (cases x) auto
  qed
qed

lemma sample_step_complete:
  "has_all_channels (sensor_data a) \<Longrightarrow> has_all_channels (sensor_data (snd (sample_step e a)))"
  using get_obd_data_keeps_complete [of "sensor_data a" "tick_conn e" "tick_rnd e"]
  by (cases "get_obd_data (tick_conn e) (tick_rnd e) (sensor_data a)")
    (simp add: sample_step_def)

lemma log_step_sensor_data: "sensor_data (snd (log_step e a)) = sensor_data a"
  by (simp add: log_step_def split: prod.splits)

lemma body_complete:
  assumes "has_all_channels (sensor_data a)"
  shows "has_all_channels (sensor_data (snd (update_sensors_body e a)))"
  unfolding update_sensors_body_def
proof (rule run_steps_invariant [where P = "\<lambda>a. has_all_channels (sensor_data a)"])
  show "has_all_channels (sensor_data a)" by (rule assms)
next
  fix f :: "app \<Rightarrow> exn option \<times> app" and s :: app
  assume f: "f \<in> set [sample_step e, log_step e,
      (\<lambda>a. (None, emit (Sensor_update (sensor_data a)) a)), check_alerts]"
    and c: "has_all_channels (sensor_data s)"
  from f consider "f = sample_step e" | "f = log_step e"
    | "f = (\<lambda>a. (None, emit (Sensor_update (sensor_data a)) a))" | "f = check_alerts"
    by auto
  then show "has_all_channels (sensor_data (snd (f s)))"
  proof cases
    case 1
    then show ?thesis using c sample_step_complete by simp
  next
    case 2
    then show ?thesis using c log_step_sensor_data by simp
  next
    case 3
    then show ?thesis using c by (simp add: emit_def)
  next
    case 4
    then show ?thesis using c check_alerts_sensor_data by simp
  qed
qed

lemma update_sensors_complete:
  "has_all_channels (sensor_data a) \<Longrightarrow> has_all_channels (sensor_data (snd (update_sensors es a)))"
proof (induction es arbitrary: a)
  case Nil
  then show ?case by simp
next
  case (Cons e es)
  have b: "has_all_channels (sensor_data (snd (update_sensors_body e a)))"
    using Cons.prems by (rule body_complete)
  show ?case
  proof (cases "update_sensors_body e a")
    case (Pair x a1)
    then show ?thesis using b Cons.IH [of a1] by (cases x) auto
  qed
qed

text \<open>
  C9. The simulated generator binds all nine channel ids to a number, whatever the dict
  held before; so does every sampling pass that returns, connected or simulated, for
  every combination of query outcomes; a pass keeps all nine ids bound when they were
  bound before it, also when a query raises in the middle; and after any number of
  iterations of the telemetry loop from the initial state, the shared snapshot binds
  all nine ids. Values of the dict are numbers by their type.
\<close>

theorem snapshot_complete:
  "has_all_channels (simulate_obd_data r s) \<and>
   (fst (get_obd_data connection r s) = None \<longrightarrow>
      has_all_channels (snd (get_obd_data connection r s))) \<and>
   (has_all_channels s \<longrightarrow> has_all_channels (snd (get_obd_data connection r s))) \<and>
   has_all_channels (sensor_data (snd (update_sensors es (app_init dir))))"
proof (intro conjI impI)
  show "has_all_channels (simulate_obd_data r s)" by (rule simulate_complete)
next
  assume "fst (get_obd_data connection r s) = None"
  then show "has_all_channels (snd (get_obd_data connection r s))" by (rule finished_pass_complete)
next
  assume "has_all_channels s"
  then show "has_all_channels (snd (get_obd_data connection r s))" by (rule get_obd_data_keeps_complete)
next
  have "has_all_channels (sensor_data (app_init dir))"
    using init_complete by (simp add: app_init_def)
  then show "has_all_channels (sensor_data (snd (update_sensors es (app_init dir))))"
    by (rule update_sensors_complete)
qed

theorem snapshot_complete_witness:
  "fst (get_obd_data (Some null_connection) no_random Map.empty) = None \<and>
   has_all_channels (snd (get_obd_data (Some null_connection) no_random Map.empty)) \<and>
   has_all_channels sensor_data_init \<and>
   has_all_channels (snd (get_obd_data (Some rpm_raises_connection) no_random sensor_data_init)) \<and>
   has_all_channels (simulate_obd_data no_random Map.empty) \<and>
   has_all_channels (sensor_data (snd (update_sensors [write_fails_tick, calm_tick] (app_init Map.empty))))"
proof -
  have a: "fst (get_obd_data (Some null_connection) no_random Map.empty) = None"
    using null_ok by (simp add: get_obd_data_connected)
  note t1 = snapshot_complete [of no_random Map.empty "Some null_connection"
      "[write_fails_tick, calm_tick]" Map.empty]
  note t2 = snapshot_complete [of no_random sensor_data_init "Some rpm_raises_connection"
      "[]" Map.empty]
  show ?thesis using a t1 t2 init_complete by blast
qed

lemma body_sensor_data:
  assumes "fst (update_sensors_body e a) = None"
  shows "sensor_data (snd (update_sensors_body e a)) =
         snd (get_obd_data (tick_conn e) (tick_rnd e) (sensor_data a))"
proof -
  obtain a' where a': "update_sensors_body e a = (None, a')"
    using assms by (cases "update_sensors_body e a") auto
  from update_sensors_body_None [OF a'] obtain s lg where
    g: "get_obd_data (tick_conn e) (tick_rnd e) (sensor_data a) = (None, s)"
    and c: "check_alerts (emit (Sensor_update s) (a\<lparr>sensor_data := s, log_state := lg\<rparr>)) = (None, a')"
    by blast
  have "sensor_data a' = s"
    using check_alerts_sensor_data [of "emit (Sensor_update s) (a\<lparr>sensor_data := s, log_state := lg\<rparr>)"] c
    by (simp add: emit_def)
  then show ?thesis using a' g by simp
qed

lemma start_usable: "handle_usable (log_state (app_init dir))"
  by (simp add: handle_usable_def app_init_def start_logger_def)

lemma cool_ok: "is_connected cool_connection \<and> no_raise cool_connection"
  by (simp add: cool_connection_def no_raise_def plain_commands_def cool_values_def returns_def)

lemma bench_tick_quiet: "quiet_tick bench_tick"
  using bench_ok by (simp add: quiet_tick_def bench_tick_def no_io_error_def)

lemma cool_tick_quiet: "quiet_tick cool_tick"
  using cool_ok by (simp add: quiet_tick_def cool_tick_def no_io_error_def)

lemma calm_tick_quiet: "quiet_tick calm_tick"
  by (simp add: quiet_tick_def calm_tick_def no_io_error_def)

lemma py_int_numeral: "py_int (numeral n) = numeral n"
  by (simp add: py_int_def)

lemma bench_tick_sensors:
  "sensor_data (snd (update_sensors_body bench_tick (app_init Map.empty))) ''motor_temp'' = Some 101 \<and>
   sensor_data (snd (update_sensors_body bench_tick (app_init Map.empty))) ''battery_voltage'' =
     Some (118 / 10)"
proof -
  have "fst (update_sensors_body bench_tick (app_init Map.empty)) = None"
    using body_quiet [OF bench_tick_quiet start_usable] by simp
  then show ?thesis
    using bench_ok
    by (simp add: body_sensor_data bench_tick_def get_obd_data_connected reading_def
        bench_connection_def bench_values_def py_int_numeral py_round1_def Let_def)
qed

lemma cool_tick_sensors:
  "sensor_data (snd (update_sensors_body cool_tick (app_init Map.empty))) ''motor_temp'' = Some 99 \<and>
   sensor_data (snd (update_sensors_body cool_tick (app_init Map.empty))) ''battery_voltage'' =
     Some (126 / 10)"
proof -
  have "fst (update_sensors_body cool_tick (app_init Map.empty)) = None"
    using body_quiet [OF cool_tick_quiet start_usable] by simp
  then show ?thesis
    using cool_ok
    by (simp add: body_sensor_data cool_tick_def get_obd_data_connected reading_def
        cool_connection_def cool_values_def py_int_numeral py_round1_def Let_def)
qed

theorem threshold_alerting_witness:
  "update_sensors_body bench_tick (app_init Map.empty) =
     (None, snd (update_sensors_body bench_tick (app_init Map.empty))) \<and>
   sensor_data (snd (update_sensors_body bench_tick (app_init Map.empty))) ''motor_temp'' =
     Some 101 \<and>
   sensor_data (snd (update_sensors_body bench_tick (app_init Map.empty))) ''battery_voltage'' =
     Some (118 / 10) \<and>
   alerts_with temp_message
     (new_events (app_init Map.empty) (snd (update_sensors_body bench_tick (app_init Map.empty)))) =
     [Alert ''warning'' temp_message 101] \<and>
   alerts_with voltage_message
     (new_events (app_init Map.empty) (snd (update_sensors_body bench_tick (app_init Map.empty)))) =
     [Alert ''warning'' voltage_message (118 / 10)] \<and>
   update_sensors_body cool_tick (app_init Map.empty) =
     (None, snd (update_sensors_body cool_tick (app_init Map.empty))) \<and>
   sensor_data (snd (update_sensors_body cool_tick (app_init Map.empty))) ''motor_temp'' =
     Some 99 \<and>
   alerts_with temp_message
     (new_events (app_init Map.empty) (snd (update_sensors_body cool_tick (app_init Map.empty)))) =
     [] \<and>
   alerts_with voltage_message
     (new_events (app_init Map.empty) (snd (update_sensors_body cool_tick (app_init Map.empty)))) =
     []"
proof -
  have b1: "update_sensors_body bench_tick (app_init Map.empty) =
     (None, snd (update_sensors_body bench_tick (app_init Map.empty)))"
    using body_quiet [OF bench_tick_quiet start_usable, of Map.empty]
    by (cases "update_sensors_body bench_tick (app_init Map.empty)") simp
  have b2: "update_sensors_body cool_tick (app_init Map.empty) =
     (None, snd (update_sensors_body cool_tick (app_init Map.empty)))"
    using body_quiet [OF cool_tick_quiet start_usable, of Map.empty]
    by (cases "update_sensors_body cool_tick (app_init Map.empty)") simp
  note s1 = bench_tick_sensors
  note s2 = cool_tick_sensors
  note t1 = threshold_alerting [OF b1 conjunct1 [OF s1] conjunct2 [OF s1]]
  note t2 = threshold_alerting [OF b2 conjunct1 [OF s2] conjunct2 [OF s2]]
  have v1: "(118 / 10 :: rat) < 12" and v2: "\<not> (126 / 10 :: rat) < 12" by simp_all
  show ?thesis using b1 b2 s1 s2 t1 t2 v1 v2 by blast
qed

text \<open>
  C6 as stated fails for an iteration that does not complete: the log entry is written
  before the thresholds are checked, and nothing catches a failed write. With the
  snapshot at motor_temp 101 and the write refused, the iteration ends with the error
  and publishes no alert, nor the snapshot.
\<close>

theorem hot_tick_no_alert:
  "fst (update_sensors_body hot_write_fails_tick (app_init Map.empty)) = Some OSError \<and>
   sensor_data (snd (update_sensors_body hot_write_fails_tick (app_init Map.empty)))
     ''motor_temp'' = Some 101 \<and>
   emitted (snd (update_sensors_body hot_write_fails_tick (app_init Map.empty))) = []"
proof -
  have "\<exists>s. get_obd_data (Some bench_connection) no_random sensor_data_init = (None, s) \<and>
            s ''motor_temp'' = Some 101"
    using bench_ok
    by (simp add: get_obd_data_connected reading_def bench_connection_def bench_values_def
        py_int_numeral)
  then obtain s where
    g: "get_obd_data (Some bench_connection) no_random sensor_data_init = (None, s)"
    and t: "s ''motor_temp'' = Some 101"
    by blast
  have l: "fst (log_sensor_data \<lparr>open_raises = False, write_raises = True\<rparr> 36000 36000 36000
             s (start_logger Map.empty)) = Some OSError"
    by (simp add: log_sensor_data_def rotate_logs_def start_logger_def open_append_def
        os_remove_def strftime_hour_def get_log_filename_def timedelta_hours_def Let_def)
  obtain lg where lg: "log_sensor_data \<lparr>open_raises = False, write_raises = True\<rparr>
      36000 36000 36000 s (start_logger Map.empty) = (Some OSError, lg)"
    using l by (cases "log_sensor_data \<lparr>open_raises = False, write_raises = True\<rparr>
      36000 36000 36000 s (start_logger Map.empty)") auto
  have "update_sensors_body hot_write_fails_tick (app_init Map.empty) =
      (Some OSError, (app_init Map.empty)\<lparr>sensor_data := s, log_state := lg\<rparr>)"
    using g lg
    by (simp add: update_sensors_body_def sample_step_def log_step_def hot_write_fails_tick_def
        app_init_def)
  then show ?thesis using t by (simp add: app_init_def)
qed

theorem loops_run_until_raise_witness:
  "list_all quiet_tick [bench_tick, calm_tick] \<and> handle_usable (log_state (app_init Map.empty)) \<and>
   fst (update_sensors [bench_tick, calm_tick] (app_init Map.empty)) = None \<and>
   sensor_updates (snd (update_sensors [bench_tick, calm_tick] (app_init Map.empty))) = 2 \<and>
   list_all quiet_dtc [demo_env, demo_env] \<and>
   fst (update_errors [demo_env, demo_env] (app_init Map.empty)) = None \<and>
   error_updates (snd (update_errors [demo_env, demo_env] (app_init Map.empty))) = 2 \<and>
   fst (update_sensors_body write_fails_tick (app_init Map.empty)) \<noteq> None \<and>
   update_sensors [write_fails_tick, calm_tick] (app_init Map.empty) =
     update_sensors_body write_fails_tick (app_init Map.empty) \<and>
   fst (update_errors_body dtc_raises_env (app_init Map.empty)) \<noteq> None \<and>
   update_errors [dtc_raises_env, demo_env] (app_init Map.empty) =
     update_errors_body dtc_raises_env (app_init Map.empty)"
proof -
  have q: "list_all quiet_tick [bench_tick, calm_tick]"
    using bench_tick_quiet calm_tick_quiet by simp
  have d: "list_all quiet_dtc [demo_env, demo_env]"
    by (simp add: quiet_dtc_def demo_env_def)
  have w: "fst (update_sensors_body write_fails_tick (app_init Map.empty)) \<noteq> None"
    by (simp add: update_sensors_body_def sample_step_def log_step_def write_fails_tick_def
        get_obd_data_def log_sensor_data_def rotate_logs_def app_init_def start_logger_def
        open_append_def os_remove_def strftime_hour_def get_log_filename_def
        timedelta_hours_def Let_def)
  have e: "fst (update_errors_body dtc_raises_env (app_init Map.empty)) \<noteq> None"
    by (simp add: update_errors_body_def dtc_raises_env_def dtc_raises_connection_def
        get_dtc_codes_def)
  have z: "sensor_updates (app_init Map.empty) = 0" "error_updates (app_init Map.empty) = 0"
    by (simp_all add: sensor_updates_def error_updates_def app_init_def)
  note t = loops_run_until_raise [of "[bench_tick, calm_tick]" "app_init Map.empty"
      "[demo_env, demo_env]" write_fails_tick dtc_raises_env]
  note t1 = loops_run_until_raise [of "[calm_tick]" "app_init Map.empty"
      "[demo_env]" write_fails_tick dtc_raises_env]
  show ?thesis using q d w e z t t1 start_usable [of Map.empty] by auto
qed

text \<open>
  C8 as stated fails: with the write of the first log entry refused, the
  telemetry loop ends with that error before it publishes anything, and the iteration
  scheduled next never runs; the fault-code loop ends the same way when its query
  raises.
\<close>

theorem failed_write_ends_loop:
  "fst (update_sensors [write_fails_tick, calm_tick] (app_init Map.empty)) = Some OSError \<and>
   sensor_updates (snd (update_sensors [write_fails_tick, calm_tick] (app_init Map.empty))) = 0 \<and>
   fst (update_errors [dtc_raises_env, demo_env] (app_init Map.empty)) = Some QueryError \<and>
   error_updates (snd (update_errors [dtc_raises_env, demo_env] (app_init Map.empty))) = 0"
proof -
  have w: "fst (update_sensors_body write_fails_tick (app_init Map.empty)) = Some OSError \<and>
           emitted (snd (update_sensors_body write_fails_tick (app_init Map.empty))) = []"
    by (simp add: update_sensors_body_def sample_step_def log_step_def write_fails_tick_def
        get_obd_data_def log_sensor_data_def rotate_logs_def app_init_def start_logger_def
        open_append_def os_remove_def strftime_hour_def get_log_filename_def
        timedelta_hours_def Let_def)
  have e: "fst (update_errors_body dtc_raises_env (app_init Map.empty)) = Some QueryError \<and>
           emitted (snd (update_errors_body dtc_raises_env (app_init Map.empty))) = []"
    by (simp add: update_errors_body_def dtc_raises_env_def dtc_raises_connection_def
        get_dtc_codes_def app_init_def)
  have w': "update_sensors [write_fails_tick, calm_tick] (app_init Map.empty) =
      update_sensors_body write_fails_tick (app_init Map.empty)"
    using w by (cases "update_sensors_body write_fails_tick (app_init Map.empty)") auto
  have e': "update_errors [dtc_raises_env, demo_env] (app_init Map.empty) =
      update_errors_body dtc_raises_env (app_init Map.empty)"
    using e by (cases "update_errors_body dtc_raises_env (app_init Map.empty)") auto
  show ?thesis
    unfolding w' e' using w e by (simp add: sensor_updates_def error_updates_def)
qed

lemma append_codes_eq:
  "append_codes clock i xs acc =
     acc @ map (\<lambda>(j, dtc). code_entry clock j dtc) (zip [i..<i + length xs] xs)"
proof (induction xs arbitrary: i acc)
  case Nil
  then show ?case by simp
next
  case (Cons dtc rest)
  have "[i..<i + length (dtc # rest)] = i # [Suc i..<Suc i + length rest]"
    by (subst upt_rec) simp
  then show ?case using Cons.IH [of "Suc i" "acc @ [code_entry clock i dtc]"] by simp
qed

lemma append_codes_length: "length (append_codes clock i xs acc) = length acc + length xs"
  by (simp add: append_codes_eq)

lemma append_codes_nth:
  assumes "j < length xs"
  shows "append_codes clock 0 xs [] ! j = code_entry clock j (xs ! j)"
  using assms by (simp add: append_codes_eq)

lemma code_entry_fields:
  "dtc_code (code_entry clock i dtc) = dtc \<and>
   dtc_time (code_entry clock i dtc) = strftime_minute (clock i) \<and>
   (map_of dtc_descriptions dtc = None \<longrightarrow>
      dtc_title (code_entry clock i dtc) = ''Hata Kodu '' @ dtc \<and>
      dtc_description (code_entry clock i dtc) = undefined_code_text)"
  by (simp add: code_entry_def Let_def split: option.splits prod.splits)

lemma demo_faults_demo:
  "map dtc_code (demo_faults clock 0 demo_entries) = [''P0300'', ''P0171'', ''P0420'', ''P0455''] \<and>
   map dtc_time (demo_faults clock 0 demo_entries) =
     [strftime_minute (clock 0), strftime_minute (clock 1), strftime_minute (clock 2),
      strftime_minute (clock 3)]"
  by (simp add: demo_entries_def numeral_2_eq_2 numeral_3_eq_3)

text \<open>
  C3, as amended. When the interface is unavailable, the reader returns the four demo
  entries P0300, P0171, P0420, P0455, the entry at position \<open>i\<close> stamped with the
  clock as read for it. When the interface is connected and the trouble-code response is
  null, it returns the empty list. On a response with codes it returns one entry per
  code, in order, stamped the same way, and a code that the lookup table does not have
  gets the title \<^verbatim>\<open>Hata Kodu\<close> followed by the raw code and the generic
  description.
\<close>

theorem fault_reader:
  "(unavailable connection \<longrightarrow>
      fst (get_dtc_codes connection clock fs) = None \<and>
      length (snd (get_dtc_codes connection clock fs)) = 4 \<and>
      map dtc_code (snd (get_dtc_codes connection clock fs)) =
        [''P0300'', ''P0171'', ''P0420'', ''P0455''] \<and>
      map dtc_time (snd (get_dtc_codes connection clock fs)) =
        [strftime_minute (clock 0), strftime_minute (clock 1), strftime_minute (clock 2),
         strftime_minute (clock 3)]) \<and>
   (connection = Some c \<and> is_connected c \<and> query_dtc c = Returns Null \<longrightarrow>
      get_dtc_codes connection clock fs = (None, [])) \<and>
   (connection = Some c \<and> is_connected c \<and> query_dtc c = Returns (Value dtc_list) \<longrightarrow>
      fst (get_dtc_codes connection clock fs) = None \<and>
      length (snd (get_dtc_codes connection clock fs)) = length dtc_list \<and>
      (\<forall>j < length dtc_list.
         dtc_code (snd (get_dtc_codes connection clock fs) ! j) = dtc_list ! j \<and>
         dtc_time (snd (get_dtc_codes connection clock fs) ! j) = strftime_minute (clock j) \<and>
         (map_of dtc_descriptions (dtc_list ! j) = None \<longrightarrow>
            dtc_title (snd (get_dtc_codes connection clock fs) ! j) =
              ''Hata Kodu '' @ dtc_list ! j \<and>
            dtc_description (snd (get_dtc_codes connection clock fs) ! j) =
              undefined_code_text)))"
proof (intro conjI impI)
  assume u: "unavailable connection"
  then have g: "get_dtc_codes connection clock fs = (None, demo_faults clock 0 demo_entries)"
    by (auto simp: unavailable_def get_dtc_codes_def split: option.splits)
  show "fst (get_dtc_codes connection clock fs) = None" by (simp add: g)
  show "map dtc_code (snd (get_dtc_codes connection clock fs)) =
        [''P0300'', ''P0171'', ''P0420'', ''P0455'']"
    using demo_faults_demo [of clock] by (simp add: g)
  show "length (snd (get_dtc_codes connection clock fs)) = 4"
    by (simp add: g demo_entries_def)
  show "map dtc_time (snd (get_dtc_codes connection clock fs)) =
        [strftime_minute (clock 0), strftime_minute (clock 1), strftime_minute (clock 2),
         strftime_minute (clock 3)]"
    using demo_faults_demo [of clock] by (simp add: g)
next
  assume "connection = Some c \<and> is_connected c \<and> query_dtc c = Returns Null"
  then show "get_dtc_codes connection clock fs = (None, [])"
    by (simp add: get_dtc_codes_def)
next
  assume a: "connection = Some c \<and> is_connected c \<and> query_dtc c = Returns (Value dtc_list)"
  then have g: "get_dtc_codes connection clock fs = (None, append_codes clock 0 dtc_list [])"
    by (simp add: get_dtc_codes_def)
  show "fst (get_dtc_codes connection clock fs) = None" by (simp add: g)
  show "length (snd (get_dtc_codes connection clock fs)) = length dtc_list"
    by (simp add: g append_codes_length)
  show "\<forall>j < length dtc_list.
         dtc_code (snd (get_dtc_codes connection clock fs) ! j) = dtc_list ! j \<and>
         dtc_time (snd (get_dtc_codes connection clock fs) ! j) = strftime_minute (clock j) \<and>
         (map_of dtc_descriptions (dtc_list ! j) = None \<longrightarrow>
            dtc_title (snd (get_dtc_codes connection clock fs) ! j) =
              ''Hata Kodu '' @ dtc_list ! j \<and>
            dtc_description (snd (get_dtc_codes connection clock fs) ! j) =
              undefined_code_text)"
    using code_entry_fields by (simp add: g append_codes_nth)
qed

theorem fault_reader_witness:
  "unavailable None \<and>
   length (snd (get_dtc_codes None minute_clock [])) = 4 \<and>
   map dtc_code (snd (get_dtc_codes None minute_clock [])) =
     [''P0300'', ''P0171'', ''P0420'', ''P0455''] \<and>
   map dtc_time (snd (get_dtc_codes None minute_clock [])) = [600, 601, 602, 603] \<and>
   is_connected null_connection \<and> query_dtc null_connection = Returns Null \<and>
   get_dtc_codes (Some null_connection) minute_clock [] = (None, []) \<and>
   is_connected two_codes_connection \<and>
   query_dtc two_codes_connection = Returns (Value [''P0300'', ''P9999'']) \<and>
   (1 :: nat) < length [''P0300'', ''P9999''] \<and>
   map_of dtc_descriptions ([''P0300'', ''P9999''] ! 1) = None \<and>
   dtc_title (snd (get_dtc_codes (Some two_codes_connection) minute_clock []) ! 1) =
     ''Hata Kodu P9999'' \<and>
   dtc_time (snd (get_dtc_codes (Some two_codes_connection) minute_clock []) ! 1) = 601"
proof -
  have u: "unavailable None" by (simp add: unavailable_def)
  have n: "Some null_connection = Some null_connection \<and> is_connected null_connection \<and>
      query_dtc null_connection = Returns Null"
    by (simp add: null_connection_def)
  have c: "Some two_codes_connection = Some two_codes_connection \<and>
      is_connected two_codes_connection \<and>
      query_dtc two_codes_connection = Returns (Value [''P0300'', ''P9999''])"
    by (simp add: two_codes_connection_def)
  have l: "(1 :: nat) < length [''P0300'', ''P9999'']" by simp
  have m: "map_of dtc_descriptions ([''P0300'', ''P9999''] ! 1) = None"
    by (simp add: dtc_descriptions_def)
  have k: "[strftime_minute (minute_clock 0), strftime_minute (minute_clock 1),
            strftime_minute (minute_clock 2), strftime_minute (minute_clock 3)] =
           [600, 601, 602, 603]"
    "strftime_minute (minute_clock 1) = 601"
    by (simp_all add: strftime_minute_def minute_clock_def)
  note t1 = fault_reader [of None minute_clock "[]" null_connection "[]"]
  note t2 = fault_reader [of "Some null_connection" minute_clock "[]" null_connection "[]"]
  note t3 = fault_reader [of "Some two_codes_connection" minute_clock "[]"
      two_codes_connection "[''P0300'', ''P9999'']"]
  from t1 u have a1: "length (snd (get_dtc_codes None minute_clock [])) = 4 \<and>
      map dtc_code (snd (get_dtc_codes None minute_clock [])) =
        [''P0300'', ''P0171'', ''P0420'', ''P0455''] \<and>
      map dtc_time (snd (get_dtc_codes None minute_clock [])) = [600, 601, 602, 603]"
    using k(1) by simp
  from t2 n have a2: "get_dtc_codes (Some null_connection) minute_clock [] = (None, [])"
    by blast
  from t3 c l m have a3:
    "dtc_title (snd (get_dtc_codes (Some two_codes_connection) minute_clock []) ! 1) =
       ''Hata Kodu '' @ [''P0300'', ''P9999''] ! 1 \<and>
     dtc_time (snd (get_dtc_codes (Some two_codes_connection) minute_clock []) ! 1) =
       strftime_minute (minute_clock 1)"
    by blast
  show ?thesis using u n c l m a1 a2 a3 k(2) by simp
qed

text \<open>
  C3 as stated fails for a null response of a connected interface: the result
  is the empty list, not the four demo entries.
\<close>

theorem null_dtc_response_counterexample:
  "is_connected null_connection \<and> query_dtc null_connection = Returns Null \<and>
   snd (get_dtc_codes (Some null_connection) minute_clock []) = [] \<and>
   length (snd (get_dtc_codes (Some null_connection) minute_clock [])) \<noteq> 4"
  by (simp add: get_dtc_codes_def null_connection_def)

text \<open>
  C5. A volume request whose number is below 0 or above 100, such as 150, is answered
  with status 400 and leaves the whole state as it was; so is a station request whose
  number is negative or at least the number of stations, such as the number of stations
  itself. For each of the four POST handlers, a request that is not accepted leaves the
  state unchanged, also when the handler raises on a value that is not a number.
\<close>

theorem rejected_request_changes_nothing:
  "(data ''volume'' = Some v \<and> json_num v = Some r \<and> (r < 0 \<or> 100 < r) \<longrightarrow>
      set_radio_volume data a = (Inr (failure ''Invalid volume''), a)) \<and>
   (data ''station'' = Some v \<and> json_num v = Some r \<and>
      (r < 0 \<or> of_nat (length (stations (radio_data a))) \<le> r) \<longrightarrow>
      set_radio_station data a = (Inr (failure ''Invalid station''), a)) \<and>
   (\<not> accepted (fst (set_radio_volume data a)) \<longrightarrow> snd (set_radio_volume data a) = a) \<and>
   (\<not> accepted (fst (set_radio_station data a)) \<longrightarrow> snd (set_radio_station data a) = a) \<and>
   (\<not> accepted (fst (set_radio_play data a)) \<longrightarrow> snd (set_radio_play data a) = a) \<and>
   (\<not> accepted (fst (set_control control_name data a)) \<longrightarrow>
      snd (set_control control_name data a) = a)"
proof (intro conjI impI)
  assume "data ''volume'' = Some v \<and> json_num v = Some r \<and> (r < 0 \<or> 100 < r)"
  then show "set_radio_volume data a = (Inr (failure ''Invalid volume''), a)"
    by (auto simp: set_radio_volume_def)
next
  assume "data ''station'' = Some v \<and> json_num v = Some r \<and>
      (r < 0 \<or> of_nat (length (stations (radio_data a))) \<le> r)"
  then show "set_radio_station data a = (Inr (failure ''Invalid station''), a)"
    by (auto simp: set_radio_station_def)
next
  assume "\<not> accepted (fst (set_radio_volume data a))"
  then show "snd (set_radio_volume data a) = a"
    by (auto simp: set_radio_volume_def accepted_def success_def Let_def
        split: option.splits if_splits)
next
  assume "\<not> accepted (fst (set_radio_station data a))"
  then show "snd (set_radio_station data a) = a"
    by (auto simp: set_radio_station_def accepted_def success_def Let_def
        split: option.splits if_splits)
next
  assume "\<not> accepted (fst (set_radio_play data a))"
  then show "snd (set_radio_play data a) = a"
    by (auto simp: set_radio_play_def accepted_def success_def Let_def split: option.splits)
next
  assume "\<not> accepted (fst (set_control control_name data a))"
  then show "snd (set_control control_name data a) = a"
    by (auto simp: set_control_def accepted_def split: option.splits if_splits)
qed

theorem rejected_request_changes_nothing_witness:
  "volume_150 ''volume'' = Some (JNum 150) \<and> json_num (JNum 150) = Some 150 \<and>
   (100 :: rat) < 150 \<and>
   set_radio_volume volume_150 (app_init Map.empty) =
     (Inr (failure ''Invalid volume''), app_init Map.empty) \<and>
   volume (radio_data (snd (set_radio_volume volume_150 (app_init Map.empty)))) = JNum 70 \<and>
   station_5 ''station'' = Some (JNum 5) \<and> json_num (JNum 5) = Some 5 \<and>
   of_nat (length (stations (radio_data (app_init Map.empty)))) \<le> (5 :: rat) \<and>
   set_radio_station station_5 (app_init Map.empty) =
     (Inr (failure ''Invalid station''), app_init Map.empty) \<and>
   current_station (radio_data (snd (set_radio_station station_5 (app_init Map.empty)))) =
     JNum 0 \<and>
   \<not> accepted (fst (set_control ''horn'' light_without_state (app_init Map.empty))) \<and>
   snd (set_control ''horn'' light_without_state (app_init Map.empty)) = app_init Map.empty"
proof -
  have v: "volume_150 ''volume'' = Some (JNum 150) \<and> json_num (JNum 150) = Some 150 \<and>
      ((150 :: rat) < 0 \<or> (100 :: rat) < 150)"
    by (simp add: volume_150_def)
  have s: "station_5 ''station'' = Some (JNum 5) \<and> json_num (JNum 5) = Some 5 \<and>
      ((5 :: rat) < 0 \<or> of_nat (length (stations (radio_data (app_init Map.empty)))) \<le> (5 :: rat))"
    by (simp add: station_5_def app_init_def radio_data_init_def)
  have h: "\<not> accepted (fst (set_control ''horn'' light_without_state (app_init Map.empty)))"
    by (simp add: set_control_def app_init_def control_states_init_def accepted_def failure_def)
  note t1 = rejected_request_changes_nothing [of volume_150 "JNum 150" 150 "app_init Map.empty"
      "''horn''"]
  note t2 = rejected_request_changes_nothing [of station_5 "JNum 5" 5 "app_init Map.empty"
      "''horn''"]
  note t3 = rejected_request_changes_nothing [of light_without_state "JNum 5" 5
      "app_init Map.empty" "''horn''"]
  from t1 v have a1: "set_radio_volume volume_150 (app_init Map.empty) =
     (Inr (failure ''Invalid volume''), app_init Map.empty)" by blast
  from t2 s have a2: "set_radio_station station_5 (app_init Map.empty) =
     (Inr (failure ''Invalid station''), app_init Map.empty)" by blast
  from t3 h have a3: "snd (set_control ''horn'' light_without_state (app_init Map.empty)) =
     app_init Map.empty" by blast
  have i: "volume (radio_data (app_init Map.empty)) = JNum 70"
    "current_station (radio_data (app_init Map.empty)) = JNum 0"
    by (simp_all add: app_init_def radio_data_init_def)
  show ?thesis using v s h a1 a2 a3 i by simp
qed

text \<open>
  C4. The code at a message that names the control \<^verbatim>\<open>light\<close> and has no
  \<^verbatim>\<open>state\<close>: the POST handler rejects it and changes nothing, while the subscriber
  handler stores \<^verbatim>\<open>None\<close> as the state of the light, which was on, and broadcasts
  that update. The lemmas after it show where the two paths agree: on a control message
  that carries a state, and on every radio message.
\<close>

theorem control_change_without_state:
  "set_control ''light'' light_without_state (app_init Map.empty) =
     (Inr (failure ''Invalid control''), app_init Map.empty) \<and>
   fst (handle_control_change light_without_state (app_init Map.empty)) = None \<and>
   control_states (snd (handle_control_change light_without_state (app_init Map.empty))) ''light''
     = Some JNull \<and>
   emitted (snd (handle_control_change light_without_state (app_init Map.empty))) =
     [Control_update ''light'' JNull] \<and>
   control_states (app_init Map.empty) ''light'' = Some (JBool True)"
  by (simp add: set_control_def handle_control_change_def light_without_state_def dict_get_def
      app_init_def control_states_init_def emit_def)

lemma control_change_with_state:
  assumes "data ''control'' = Some (JStr n)" and "data ''state'' = Some v"
  shows "handle_control_change data a = (None, snd (set_control n data a)) \<and>
         (accepted (fst (set_control n data a)) \<longleftrightarrow> control_states a n \<noteq> None)"
  using assms
  by (simp add: handle_control_change_def set_control_def dict_get_def accepted_def failure_def)

lemma radio_change_station_as_post:
  "radio_change_station data a =
     (case fst (set_radio_station data a) of Inl x \<Rightarrow> Some x | Inr rep \<Rightarrow> None,
      snd (set_radio_station data a))"
  by (simp add: radio_change_station_def set_radio_station_def Let_def split: option.splits)

lemma radio_change_playing_as_post:
  "radio_change_playing data a = (None, snd (set_radio_play data a))"
  by (simp add: radio_change_playing_def set_radio_play_def Let_def split: option.splits)

lemma radio_change_volume_as_post:
  "radio_change_volume data a =
     (case fst (set_radio_volume data a) of Inl x \<Rightarrow> Some x | Inr rep \<Rightarrow> None,
      snd (set_radio_volume data a))"
  by (simp add: radio_change_volume_def set_radio_volume_def Let_def split: option.splits)

end
